theory Spec2Isabelle
  imports Complex_Main
begin

section \<open>Conventions of the embedding\<close>

text \<open>
  The TypeScript sources are embedded function by function.  A JavaScript \<open>number\<close> is
  modelled as a \<^typ>\<open>real\<close> (rounding is not modelled; what happens outside the range of
  a double is treated apart, for the intensity calculation, in a model with infinities), a
  \<open>Date\<close> and \<open>Date.now()\<close> as an \<^typ>\<open>int\<close> of milliseconds since the epoch,
  \<open>T | null\<close> and optional fields as \<^typ>\<open>'a option\<close>.  Mutable refs and React
  state become fields of a state record that every operation takes and returns.  The
  calls into collaborators (database, location provider, brightness control) take
  their outcome as an explicit argument, so that every branch of a \<open>try/catch\<close> in
  the source is a branch of the model.  Where two interfaces of the source share a
  field name, the field is written with its record's name in front.
\<close>
section \<open>Geo Warning Engine: definitions\<close>

text \<open>The early-warning module that follows the table types in \<open>src/lib/supabase.ts\<close>.\<close>

definition P_WAVE :: real where "P_WAVE = 6.0"
definition S_WAVE :: real where "S_WAVE = 3.5"
definition SURFACE :: real where "SURFACE = 3.0"

definition DEFAULT_WAVE_SPEED :: real where
  "DEFAULT_WAVE_SPEED = S_WAVE"

definition toRadians :: "real \<Rightarrow> real" where
  "toRadians degrees = degrees * (pi / 180)"

text \<open>
  \<open>Math.atan2(y, x)\<close>: the angle of the point \<open>(x, y)\<close>, in \<open>(-\<pi>, \<pi>]\<close>
  (signed zeros are not distinguished).
\<close>

definition Math_atan2 :: "real \<Rightarrow> real \<Rightarrow> real" where
  "Math_atan2 y x =
     (if 0 < x then arctan (y / x)
      else if x < 0 then (if 0 \<le> y then arctan (y / x) + pi else arctan (y / x) - pi)
      else if 0 < y then pi / 2
      else if y < 0 then - (pi / 2)
      else 0)"

definition calculateHaversineDistance :: "real \<Rightarrow> real \<Rightarrow> real \<Rightarrow> real \<Rightarrow> real" where
  "calculateHaversineDistance lat1 lon1 lat2 lon2 =
     (let R = 6371;
          dLat = toRadians (lat2 - lat1);
          dLon = toRadians (lon2 - lon1);
          a = sin (dLat / 2) * sin (dLat / 2) +
              cos (toRadians lat1) * cos (toRadians lat2) *
              sin (dLon / 2) * sin (dLon / 2);
          c = 2 * Math_atan2 (sqrt a) (sqrt (1 - a));
          distance = R * c
      in distance)"

text \<open>
  \<open>calculateArrivalTime(distance_km, wave_speed = DEFAULT_WAVE_SPEED)\<close>: the default
  parameter is taken when the argument is left out (\<open>None\<close>).  For a wave speed of
  zero JavaScript yields an infinity or NaN, which \<^typ>\<open>real\<close> division does not show;
  the theorems below use non-zero speeds only.
\<close>

definition calculateArrivalTime :: "real \<Rightarrow> real option \<Rightarrow> real" where
  "calculateArrivalTime distance_km wave_speed =
     distance_km / (case wave_speed of None \<Rightarrow> DEFAULT_WAVE_SPEED | Some v \<Rightarrow> v)"

record UserLocation =
  user_id :: string
  latitude :: real
  longitude :: real
  timestamp :: string

text \<open>The anonymous object type of \<open>WarningCalculation.user_location\<close>.\<close>

record GeoPoint =
  latitude :: real
  longitude :: real

record WarningCalculation =
  user_id :: string
  distance_km :: real
  arrival_time_seconds :: real
  is_urgent :: bool
  user_location :: GeoPoint

text \<open>
  What the \<open>user_locations\<close> query of \<open>getRecentUserLocations\<close> answers: an error
  object, the rows (newest first, within the look-back window), or an exception.
\<close>

datatype 'row query_result = QueryError | QueryRows "'row list" | QueryThrows

text \<open>
  The \<open>data.forEach\<close> loop over the rows with its \<open>Map\<close>, which keeps the first row of
  every user in insertion order.
\<close>

fun userLocationMap :: "UserLocation list \<Rightarrow> (string \<times> UserLocation) list \<Rightarrow> (string \<times> UserLocation) list" where
  "userLocationMap [] m = m"
| "userLocationMap (location # rest) m =
     userLocationMap rest
       (if map_of m (UserLocation.user_id location) = None
        then m @ [(UserLocation.user_id location, location)] else m)"

definition getRecentUserLocations :: "UserLocation query_result \<Rightarrow> UserLocation list" where
  "getRecentUserLocations response =
     (case response of
        QueryError \<Rightarrow> []
      | QueryThrows \<Rightarrow> []
      | QueryRows rows \<Rightarrow> map snd (userLocationMap rows []))"

text \<open>
  The body of the \<open>userLocations.forEach\<close> callback of \<open>calculateWarningsForUsers\<close>
  once the distance is known: \<open>None\<close> is the early \<open>return\<close> for a user closer than
  1 km, otherwise the warning that is pushed.
\<close>

definition warningForDistance :: "UserLocation \<Rightarrow> real \<Rightarrow> WarningCalculation option" where
  "warningForDistance userLocation distance =
     (if distance < 1 then None
      else
        (let arrivalTime = calculateArrivalTime distance None;
             isUrgent = (arrivalTime < 10)
         in Some \<lparr> WarningCalculation.user_id = UserLocation.user_id userLocation,
                   distance_km = distance,
                   arrival_time_seconds = arrivalTime,
                   is_urgent = isUrgent,
                   user_location = \<lparr> GeoPoint.latitude = UserLocation.latitude userLocation,
                                     GeoPoint.longitude = UserLocation.longitude userLocation \<rparr> \<rparr>))"

definition pushWarning :: "real \<Rightarrow> real \<Rightarrow> WarningCalculation list \<Rightarrow> UserLocation \<Rightarrow> WarningCalculation list" where
  "pushWarning epicenterLat epicenterLon warnings userLocation =
     (let distance = calculateHaversineDistance epicenterLat epicenterLon
                       (UserLocation.latitude userLocation) (UserLocation.longitude userLocation)
      in case warningForDistance userLocation distance of
           None \<Rightarrow> warnings
         | Some w \<Rightarrow> warnings @ [w])"

text \<open>
  \<open>Array.prototype.sort(compare)\<close>: a stable sort; \<open>compare a b \<le> 0\<close> keeps \<open>a\<close> in
  front of \<open>b\<close>.  It is modelled by stable insertion from the right.
\<close>

fun insertBy :: "('a \<Rightarrow> 'a \<Rightarrow> real) \<Rightarrow> 'a \<Rightarrow> 'a list \<Rightarrow> 'a list" where
  "insertBy compare a [] = [a]"
| "insertBy compare a (b # bs) =
     (if compare a b \<le> 0 then a # b # bs else b # insertBy compare a bs)"

definition Array_sort :: "('a \<Rightarrow> 'a \<Rightarrow> real) \<Rightarrow> 'a list \<Rightarrow> 'a list" where
  "Array_sort compare xs = foldr (insertBy compare) xs []"

definition byArrivalTime :: "WarningCalculation \<Rightarrow> WarningCalculation \<Rightarrow> real" where
  "byArrivalTime a b = arrival_time_seconds a - arrival_time_seconds b"

text \<open>
  \<open>calculateWarningsForUsers\<close>; the \<open>magnitude\<close> argument is not read by the source.
  The directory lookup never throws (it answers \<open>[]\<close> instead), so the outer \<open>catch\<close>
  is not reached.
\<close>

definition calculateWarningsForUsers ::
  "real \<Rightarrow> real \<Rightarrow> real \<Rightarrow> UserLocation query_result \<Rightarrow> WarningCalculation list" where
  "calculateWarningsForUsers epicenterLat epicenterLon magnitude response =
     (let userLocations = getRecentUserLocations response;
          warnings = foldl (pushWarning epicenterLat epicenterLon) [] userLocations
      in Array_sort byArrivalTime warnings)"
section \<open>Event Detector: definitions\<close>

text \<open>
  \<open>useEarthquakeDetection\<close> in \<open>src/hooks/useLocation.ts\<close>.  The hook's refs and state
  variables form one record; times are milliseconds since the epoch.  The handler
  \<open>detectEarthquake\<close> is an \<open>async\<close> function that the hook's \<open>useEffect\<close> calls without
  awaiting it, once per sensor update.  It therefore runs up to its first \<open>await\<close> of a
  collaborator and is suspended there; the rest of its body runs when the collaborator
  answers, and the handlers of later sensor updates run in between.  The model is a
  small-step one: the detector holds the suspended handlers, and a run is a list of
  occurrences, each a sensor update or the resumption of one suspended handler.
\<close>

record SensorData =
  x :: real
  y :: real
  z :: real

text \<open>\<open>EarthquakeEvent\<close> of \<open>useEarthquakeHistory\<close>; the \<open>Date\<close> is in milliseconds.\<close>

record EarthquakeEvent =
  timestamp :: int
  intensity :: real
  duration :: real
  peakAcceleration :: real

text \<open>
  \<open>EarthquakeEventData\<close>, the row inserted into \<open>earthquake_events\<close>; its \<open>timestamp\<close>
  (an ISO string in the source) is kept as the milliseconds it prints.
\<close>

record EarthquakeEventData =
  user_id :: string
  intensity :: real
  duration :: real
  peak_acceleration :: real
  latitude :: "real option"
  longitude :: "real option"
  timestamp :: int

record EventLocation =
  lat :: real
  lng :: real

text \<open>What an awaited call into a collaborator does: it returns a value or throws.\<close>

datatype 'a outcome = Returns 'a | Throws

text \<open>
  What a call of \<open>detectEarthquake\<close> reads from the render that made it: the clock at
  the call (\<open>Date.now()\<close>), the \<open>sensitivity\<close> setting, the last known \<open>location\<close> of
  \<open>useLocation\<close>, and whether the optional \<open>activateEmergencyDefense\<close> callback was
  passed to the hook.
\<close>

record Surroundings =
  now :: int
  sensitivity :: real
  location :: "GeoPoint option"
  activateEmergencyDefense :: bool

text \<open>
  A call of \<open>detectEarthquake\<close> in flight: the render it closes over, its two constants
  \<open>accelMagnitude\<close> and \<open>combinedIntensity\<close>, and the value of the state variable
  \<open>currentEventLocation\<close> in that render (a state variable read inside a handler is the
  one of the render that created the handler).
\<close>

record Handler =
  closure :: Surroundings
  accel :: real
  combined :: real
  seenEventLocation :: "EventLocation option"

text \<open>
  The four places where a handler waits for a collaborator: \<open>await
  getCurrentLocation(true)\<close> in \<open>captureEarthquakeLocation\<close>, \<open>await
  activateEmergencyDefense()\<close> in \<open>activateEmergencyDefenseIfNeeded\<close> called from the
  start branch or from the in-event branch, and the \<open>insert\<close> awaited in
  \<open>saveEarthquakeToDatabase\<close>.  (An \<open>await\<close> of a function that returns without waiting
  for a collaborator, such as \<open>activateEmergencyDefenseIfNeeded\<close> when its guard is
  false, resumes before any other handler can run and is not a suspension point.)
\<close>

datatype awaiting = GetCurrentLocation | ActivateAtStart | ActivateInEvent | InsertRow

record Detector =
  detectionBuffer :: "real list"
  lastDetectionTime :: int
  eventStartTime :: int
  isInEvent :: bool
  peakAcceleration :: real
  eventIntensityBuffer :: "real list"
  eventLocationCaptured :: bool
  defenseActivationAttempted :: bool
  earthquakeDetected :: bool
  earthquakeIntensity :: real
  lastEarthquakeTime :: "int option"
  currentEventLocation :: "EventLocation option"
  emergencyDefenseActivated :: bool
  earthquakeHistory :: "EarthquakeEvent list"
  earthquake_events :: "EarthquakeEventData list"
  defenseActivationCalls :: nat
  eventsStarted :: "int list"
  suspended :: "(awaiting \<times> Handler) list"

text \<open>
  After the refs and state variables come the effects on the collaborators:
  \<open>earthquakeHistory\<close> is the store of \<open>useEarthquakeHistory\<close>, \<open>earthquake_events\<close> lists
  the rows passed to \<open>supabase.from('earthquake_events').insert\<close>, in order (the answer
  of the insert is only logged), \<open>defenseActivationCalls\<close> counts the calls of the
  \<open>activateEmergencyDefense\<close> callback, and \<open>eventsStarted\<close> lists the clock readings of
  the log lines \<open>EARTHQUAKE DETECTED - Event Started\<close>, one per transition into an
  event.  \<open>suspended\<close> holds the handlers in flight, the longest waiting first.
\<close>

definition initialDetector :: Detector where
  "initialDetector =
     \<lparr> detectionBuffer = [], lastDetectionTime = 0, eventStartTime = 0, isInEvent = False,
       Detector.peakAcceleration = 0, eventIntensityBuffer = [], eventLocationCaptured = False,
       defenseActivationAttempted = False, earthquakeDetected = False, earthquakeIntensity = 0,
       lastEarthquakeTime = None, currentEventLocation = None, emergencyDefenseActivated = False,
       earthquakeHistory = [], earthquake_events = [], defenseActivationCalls = 0,
       eventsStarted = [], suspended = [] \<rparr>"

definition DETECTION_COOLDOWN :: int where "DETECTION_COOLDOWN = 10000"
definition BUFFER_SIZE :: nat where "BUFFER_SIZE = 10"
definition MIN_EVENT_DURATION :: real where "MIN_EVENT_DURATION = 2000"
definition INTENSITY_BUFFER_SIZE :: nat where "INTENSITY_BUFFER_SIZE = 20"
definition EMERGENCY_DEFENSE_THRESHOLD :: real where "EMERGENCY_DEFENSE_THRESHOLD = 2.5"

definition calculateMagnitude :: "SensorData \<Rightarrow> real" where
  "calculateMagnitude data = sqrt (x data * x data + y data * y data + z data * z data)"

text \<open>The first three statements of \<open>detectEarthquake\<close> after the clock is read.\<close>

definition combinedIntensity :: "real \<Rightarrow> real \<Rightarrow> real" where
  "combinedIntensity accelMagnitude gyroMagnitude =
     (let accelDeviation = \<bar>accelMagnitude - 9.81\<bar>;
          gyroIntensity = gyroMagnitude * 15
      in accelDeviation + gyroIntensity)"

text \<open>\<open>buffer.push(v); if (buffer.length > cap) buffer.shift()\<close>.\<close>

definition pushCapped :: "nat \<Rightarrow> real \<Rightarrow> real list \<Rightarrow> real list" where
  "pushCapped cap v buffer =
     (let pushed = buffer @ [v] in if length pushed > cap then tl pushed else pushed)"

text \<open>\<open>buffer.reduce((sum, val) => sum + val, 0) / buffer.length\<close>.\<close>

definition mean :: "real list \<Rightarrow> real" where
  "mean buffer = foldl (\<lambda>sum val. sum + val) 0 buffer / real (length buffer)"

text \<open>The test \<open>isAboveThreshold\<close> of a call, with \<open>threshold = baseThreshold * sensitivity\<close>.\<close>

definition isAboveThreshold :: "Handler \<Rightarrow> bool" where
  "isAboveThreshold h =
     (let baseThreshold = 1.2;
          threshold = baseThreshold * sensitivity (closure h)
      in combined h > threshold)"

text \<open>The handler waits for a collaborator: it joins the handlers in flight.\<close>

definition suspend :: "awaiting \<Rightarrow> Handler \<Rightarrow> Detector \<Rightarrow> Detector" where
  "suspend point h s = s \<lparr> suspended := suspended s @ [(point, h)] \<rparr>"

text \<open>
  The last statement of \<open>detectEarthquake\<close>, \<open>// Update peak acceleration during event\<close>,
  after which the handler is finished.
\<close>

definition updatePeakAcceleration :: "Handler \<Rightarrow> Detector \<Rightarrow> Detector" where
  "updatePeakAcceleration h s =
     (if isInEvent s \<and> accel h > Detector.peakAcceleration s
      then s \<lparr> Detector.peakAcceleration := accel h \<rparr>
      else s)"

text \<open>
  \<open>captureEarthquakeLocation\<close> from the answer of \<open>getCurrentLocation(true)\<close> on: a fix,
  no fix (then the last known location of the handler's render, if any), or an
  exception, which is caught.
\<close>

definition captureEarthquakeLocation :: "Handler \<Rightarrow> GeoPoint option outcome \<Rightarrow> Detector \<Rightarrow> Detector" where
  "captureEarthquakeLocation h answered s =
     (case answered of
        Throws \<Rightarrow> s
      | Returns (Some earthquakeLocation) \<Rightarrow>
          s \<lparr> currentEventLocation :=
                Some \<lparr> lat = GeoPoint.latitude earthquakeLocation,
                       lng = GeoPoint.longitude earthquakeLocation \<rparr>,
              eventLocationCaptured := True \<rparr>
      | Returns None \<Rightarrow>
          (case location (closure h) of
             Some lastKnown \<Rightarrow>
               s \<lparr> currentEventLocation :=
                     Some \<lparr> lat = GeoPoint.latitude lastKnown, lng = GeoPoint.longitude lastKnown \<rparr>,
                   eventLocationCaptured := True \<rparr>
           | None \<Rightarrow> s))"

text \<open>
  \<open>activateEmergencyDefenseIfNeeded(combinedIntensity)\<close> up to its \<open>await\<close>: when the guard
  holds, the flag is set and the callback is called (the first component says so, and
  the handler then waits for the callback); otherwise nothing happens.
\<close>

definition activateEmergencyDefenseIfNeeded :: "Handler \<Rightarrow> Detector \<Rightarrow> bool \<times> Detector" where
  "activateEmergencyDefenseIfNeeded h s =
     (if \<not> defenseActivationAttempted s \<and> combined h > EMERGENCY_DEFENSE_THRESHOLD \<and>
         activateEmergencyDefense (closure h)
      then (True, s \<lparr> defenseActivationAttempted := True,
                      defenseActivationCalls := defenseActivationCalls s + 1 \<rparr>)
      else (False, s))"

text \<open>The rest of \<open>activateEmergencyDefenseIfNeeded\<close>, from the answer of the callback on.\<close>

definition activationAnswered :: "bool outcome \<Rightarrow> Detector \<Rightarrow> Detector" where
  "activationAnswered answered s =
     (case answered of
        Returns True \<Rightarrow> s \<lparr> emergencyDefenseActivated := True \<rparr>
      | Returns False \<Rightarrow> s
      | Throws \<Rightarrow> s)"

text \<open>\<open>addEarthquakeEvent\<close> of \<open>useEarthquakeHistory\<close>: newest first, at most 100 kept.\<close>

definition addEarthquakeEvent :: "EarthquakeEvent \<Rightarrow> EarthquakeEvent list \<Rightarrow> EarthquakeEvent list" where
  "addEarthquakeEvent event prev = take 100 (event # prev)"


text \<open>
  \<open>saveEarthquakeToDatabase(eventData)\<close> up to its \<open>await\<close>: the row is built, with the
  location that the handler's render saw, and passed to \<open>insert\<close>; the handler waits
  for the answer, which is only logged.
\<close>

definition saveEarthquakeToDatabase :: "Handler \<Rightarrow> EarthquakeEvent \<Rightarrow> Detector \<Rightarrow> Detector" where
  "saveEarthquakeToDatabase h eventData s =
     (let localTimestamp = EarthquakeEvent.timestamp eventData + 3 * 60 * 60 * 1000;
          earthquakeData =
            \<lparr> EarthquakeEventData.user_id = ''anonymous-user'',
              EarthquakeEventData.intensity = EarthquakeEvent.intensity eventData,
              EarthquakeEventData.duration = EarthquakeEvent.duration eventData,
              peak_acceleration = EarthquakeEvent.peakAcceleration eventData,
              EarthquakeEventData.latitude = map_option lat (seenEventLocation h),
              EarthquakeEventData.longitude = map_option lng (seenEventLocation h),
              EarthquakeEventData.timestamp = localTimestamp \<rparr>
      in suspend InsertRow h (s \<lparr> earthquake_events := earthquake_events s @ [earthquakeData] \<rparr>))"

text \<open>The statements under \<open>// Reset event state\<close>.\<close>

definition resetEventState :: "Detector \<Rightarrow> Detector" where
  "resetEventState s =
     s \<lparr> isInEvent := False,
         Detector.peakAcceleration := 0,
         eventIntensityBuffer := [],
         defenseActivationAttempted := False,
         currentEventLocation := None,
         emergencyDefenseActivated := False,
         eventLocationCaptured := False \<rparr>"

text \<open>
  The start branch after \<open>await activateEmergencyDefenseIfNeeded(combinedIntensity)\<close>:
  \<open>setEarthquakeDetected(true)\<close>, \<open>setLastEarthquakeTime(new Date())\<close> with the clock
  \<open>clock\<close> of the moment, \<open>lastDetectionTime.current = now\<close> with the constant \<open>now\<close> of the
  handler, and the last statement of the handler.
\<close>

definition startBranchEnds :: "Handler \<Rightarrow> int \<Rightarrow> Detector \<Rightarrow> Detector" where
  "startBranchEnds h clock s =
     updatePeakAcceleration h
       (s \<lparr> earthquakeDetected := True,
            lastEarthquakeTime := Some clock,
            lastDetectionTime := now (closure h) \<rparr>)"

text \<open>
  The start branch after \<open>await captureEarthquakeLocation()\<close>: the guard of
  \<open>activateEmergencyDefenseIfNeeded\<close> is evaluated on the state found now.
\<close>

definition startBranchActivates :: "Handler \<Rightarrow> int \<Rightarrow> Detector \<Rightarrow> Detector" where
  "startBranchActivates h clock s =
     (case activateEmergencyDefenseIfNeeded h s of
        (True, called) \<Rightarrow> suspend ActivateAtStart h called
      | (False, unchanged) \<Rightarrow> startBranchEnds h clock unchanged)"

text \<open>
  The in-event branch after \<open>await activateEmergencyDefenseIfNeeded(combinedIntensity)\<close>:
  \<open>if (!isAboveThreshold)\<close> the event ends.  An event of at least
  \<open>MIN_EVENT_DURATION\<close> is added to the history and passed to the database, and the
  event state is reset only when the insert has answered; a shorter one is dropped
  and the event state is reset at once.
\<close>

definition inEventBranchEnds :: "Handler \<Rightarrow> Detector \<Rightarrow> Detector" where
  "inEventBranchEnds h s =
     (if \<not> isAboveThreshold h
      then
        (let eventDuration = real_of_int (now (closure h) - eventStartTime s) / 1000
         in if eventDuration \<ge> MIN_EVENT_DURATION / 1000
            then
              (let avgEventIntensity =
                     (if length (eventIntensityBuffer s) > 0
                      then mean (eventIntensityBuffer s) else combined h);
                   eventData = \<lparr> EarthquakeEvent.timestamp = eventStartTime s,
                                 EarthquakeEvent.intensity = avgEventIntensity,
                                 EarthquakeEvent.duration = eventDuration,
                                 EarthquakeEvent.peakAcceleration = Detector.peakAcceleration s \<rparr>
               in saveEarthquakeToDatabase h eventData
                    (s \<lparr> earthquakeHistory := addEarthquakeEvent eventData (earthquakeHistory s) \<rparr>))
            else updatePeakAcceleration h (resetEventState s))
      else updatePeakAcceleration h s)"

text \<open>
  \<open>detectEarthquake(accelMagnitude, gyroMagnitude)\<close> from the call to the first point
  where the handler waits, or to its end.  The start branch sets the event state and
  waits in \<open>captureEarthquakeLocation\<close>; \<open>lastDetectionTime\<close> is written only after
  that wait (and the next one).
\<close>

definition detectEarthquake :: "Surroundings \<Rightarrow> real \<Rightarrow> real \<Rightarrow> Detector \<Rightarrow> Detector" where
  "detectEarthquake env accelMagnitude gyroMagnitude s =
     (let intensityNow = combinedIntensity accelMagnitude gyroMagnitude;
          h = \<lparr> closure = env, accel = accelMagnitude, combined = intensityNow,
                seenEventLocation = currentEventLocation s \<rparr>;
          s1 = s \<lparr> earthquakeIntensity := intensityNow,
                    detectionBuffer := pushCapped BUFFER_SIZE intensityNow (detectionBuffer s) \<rparr>;
          s2 = (if isInEvent s1
                then s1 \<lparr> eventIntensityBuffer :=
                            pushCapped INTENSITY_BUFFER_SIZE intensityNow (eventIntensityBuffer s1) \<rparr>
                else s1);
          baseThreshold = 1.2;
          threshold = baseThreshold * sensitivity env;
          averageIntensity = mean (detectionBuffer s2);
          shouldDetect = (isAboveThreshold h \<and> averageIntensity > threshold * 0.8 \<and>
                          now env - lastDetectionTime s2 > DETECTION_COOLDOWN)
      in if shouldDetect \<and> \<not> isInEvent s2
         then suspend GetCurrentLocation h
                (s2 \<lparr> isInEvent := True,
                      eventStartTime := now env,
                      Detector.peakAcceleration := accelMagnitude,
                      eventIntensityBuffer := [intensityNow],
                      eventLocationCaptured := False,
                      defenseActivationAttempted := False,
                      emergencyDefenseActivated := False,
                      eventsStarted := eventsStarted s2 @ [now env] \<rparr>)
         else if isInEvent s2
         then
           (case activateEmergencyDefenseIfNeeded h s2 of
              (True, called) \<Rightarrow> suspend ActivateInEvent h called
            | (False, unchanged) \<Rightarrow> inEventBranchEnds h unchanged)
         else updatePeakAcceleration h s2)"

text \<open>
  What a collaborator answers to a waiting handler: \<open>getCurrentLocation\<close> a fix or
  none, the defense callback its success, \<open>insert\<close> whether it reported no error; each
  of them may throw instead.
\<close>

datatype answer =
    LocationAnswer "GeoPoint option outcome"
  | DefenseAnswer "bool outcome"
  | InsertAnswer "bool outcome"

text \<open>
  A waiting handler goes on with the answer it waited for, on the state that the
  detector is in by then, until it waits again or ends.
\<close>

definition continue :: "awaiting \<Rightarrow> Handler \<Rightarrow> answer \<Rightarrow> int \<Rightarrow> Detector \<Rightarrow> Detector option" where
  "continue point h answered clock s =
     (case (point, answered) of
        (GetCurrentLocation, LocationAnswer fix) \<Rightarrow>
          Some (startBranchActivates h clock (captureEarthquakeLocation h fix s))
      | (ActivateAtStart, DefenseAnswer success) \<Rightarrow>
          Some (startBranchEnds h clock (activationAnswered success s))
      | (ActivateInEvent, DefenseAnswer success) \<Rightarrow>
          Some (inEventBranchEnds h (activationAnswered success s))
      | (InsertRow, InsertAnswer noError) \<Rightarrow>
          Some (updatePeakAcceleration h (resetEventState s))
      | _ \<Rightarrow> None)"

text \<open>
  \<open>resume k answered clock\<close>: the handler at position \<open>k\<close> among the handlers in flight
  receives its answer at time \<open>clock\<close>.  Nothing happens when there is no such handler
  or the answer is not of the kind it waits for.
\<close>

definition resume :: "nat \<Rightarrow> answer \<Rightarrow> int \<Rightarrow> Detector \<Rightarrow> Detector" where
  "resume k answered clock s =
     (if k < length (suspended s)
      then
        (case suspended s ! k of
           (point, h) \<Rightarrow>
             (case continue point h answered clock
                     (s \<lparr> suspended := take k (suspended s) @ drop (Suc k) (suspended s) \<rparr>) of
                Some s' \<Rightarrow> s'
              | None \<Rightarrow> s))
      else s)"

text \<open>
  The \<open>setTimeout\<close> callback registered when an event starts; it runs 5 seconds later
  and only clears the flag shown to the user.
\<close>

definition clearEarthquakeDetected :: "Detector \<Rightarrow> Detector" where
  "clearEarthquakeDetected s = s \<lparr> earthquakeDetected := False \<rparr>"

text \<open>One sensor update: the body of the hook's \<open>useEffect\<close>.\<close>

record Sample =
  accelerometerData :: SensorData
  gyroscopeData :: SensorData
  surroundings :: Surroundings

definition onSample :: "Detector \<Rightarrow> Sample \<Rightarrow> Detector" where
  "onSample s sample =
     (let accelMagnitude = calculateMagnitude (accelerometerData sample);
          gyroMagnitude = calculateMagnitude (gyroscopeData sample)
      in detectEarthquake (surroundings sample) accelMagnitude gyroMagnitude s)"

text \<open>
  What can happen to the hook, and a run of the detector: the occurrences in their
  order.
\<close>

datatype occurrence =
    SensorUpdate Sample
  | Resumption nat answer int
  | AutoReset

fun occur :: "Detector \<Rightarrow> occurrence \<Rightarrow> Detector" where
  "occur s (SensorUpdate sample) = onSample s sample"
| "occur s (Resumption k answered clock) = resume k answered clock s"
| "occur s AutoReset = clearEarthquakeDetected s"

definition runDetector :: "Detector \<Rightarrow> occurrence list \<Rightarrow> Detector" where
  "runDetector s occurrences = foldl occur s occurrences"

text \<open>The combined intensity of a sample.\<close>

definition intensityOf :: "Sample \<Rightarrow> real" where
  "intensityOf sample =
     combinedIntensity (calculateMagnitude (accelerometerData sample))
                       (calculateMagnitude (gyroscopeData sample))"

text \<open>
  Test input: the sensor update at time \<open>t\<close> of a device that reads \<open>accelZ\<close> along \<open>z\<close>
  and nothing else, with sensitivity 1 and no last known location; \<open>callback\<close> says
  whether the defense callback was passed to the hook.  A reading of 13.81 has
  intensity 4, a reading of 9.81 has intensity 0.
\<close>

definition sampleAt :: "int \<Rightarrow> real \<Rightarrow> bool \<Rightarrow> occurrence" where
  "sampleAt t accelZ callback =
     SensorUpdate
       \<lparr> accelerometerData = \<lparr> x = 0, y = 0, z = accelZ \<rparr>,
         gyroscopeData = \<lparr> x = 0, y = 0, z = 0 \<rparr>,
         surroundings = \<lparr> now = t, sensitivity = 1, location = None,
                          activateEmergencyDefense = callback \<rparr> \<rparr>"

section \<open>Defense Mode Controller: definitions\<close>

text \<open>
  The hook \<open>useEmergencyDefense\<close> (\<open>src/hooks/useEmergencyDefense.ts\<close>), one instance of
  it.  Its functions are closures made by a render of the hook: inside them
  \<open>defenseState\<close> is the state object of the render that made the closure, while
  \<open>setDefenseState(prev => ...)\<close> updates the latest state and a ref (\<open>.current\<close>) is
  always the live one.  Every function therefore takes the state it \<^emph>\<open>captured\<close> as its
  first argument, next to the hook it works on.  The dependency lists of the
  \<open>useCallback\<close>s name every field a function reads, so a function obtained from the
  latest render captures the current state; \<open>perform\<close> below calls the functions that
  way.  The one closure that outlives its render is the callback handed to
  \<open>setInterval\<close>.
\<close>

record EmergencyDefenseState =
  isActive :: bool
  originalBrightness :: "real option"
  batterySavingEnabled :: bool
  locationSent :: bool
  falseAlarmDisabled :: bool
  falseAlarmDisabledUntil :: "int option"
  brightnessRestored :: bool
  isInitialized :: bool

text \<open>The platform (\<open>Platform.OS\<close>), the alerts shown and the registered interval.\<close>

datatype platform = Web | Native

datatype alert =
    DefenseDisabledAlert int
  | DefenseActivatedAlert bool bool bool
  | DefenseDeactivatedAlert
  | FalseAlarmProtectionAlert

text \<open>
  \<open>EveryMinute u\<close> is \<open>setInterval(checkFalseAlarmStatus, 60000)\<close> for the closure
  \<open>checkFalseAlarmStatus\<close> whose captured \<open>defenseState.falseAlarmDisabledUntil\<close> is \<open>u\<close>,
  the only part of the state that \<open>checkFalseAlarmStatus\<close> reads.
\<close>

datatype timer = EveryMinute "int option"

text \<open>The row that activation inserts into \<open>user_locations\<close>.\<close>

record EmergencyLocation =
  user_id :: string
  latitude :: real
  longitude :: real
  timestamp :: int
  emergency :: bool

text \<open>
  What the collaborators do during one call: the clock (\<open>new Date()\<close>, in
  milliseconds), the platform, whether the brightness module and the DOM throw, what
  \<open>getCurrentLocation(true)\<close> answers, and what the insert answers (\<open>Returns True\<close>: no
  error).
\<close>

record Device =
  newDate :: int
  OS :: platform
  getBrightnessThrows :: bool
  setBrightnessThrows :: bool
  documentThrows :: bool
  currentLocation :: "GeoPoint option outcome"
  insertAnswer :: "bool outcome"

text \<open>
  The hook instance and what it acts on: its React state, its two refs, the screen
  brightness of the device, the three style properties of \<open>document.body\<close> it writes on
  the web, the alerts it has shown and the rows it has passed to the insert.
\<close>

record DefenseHook =
  defenseState :: EmergencyDefenseState
  falseAlarmCheckInterval :: "timer option"
  initializationAttempted :: bool
  screenBrightness :: real
  bodyFilter :: string
  bodyAnimationPlayState :: string
  bodyTransition :: string
  alerts :: "alert list"
  user_locations :: "EmergencyLocation list"

definition setDefenseState ::
  "(EmergencyDefenseState \<Rightarrow> EmergencyDefenseState) \<Rightarrow> DefenseHook \<Rightarrow> DefenseHook" where
  "setDefenseState update h = h \<lparr> defenseState := update (defenseState h) \<rparr>"

definition Alert_alert :: "alert \<Rightarrow> DefenseHook \<Rightarrow> DefenseHook" where
  "Alert_alert a h = h \<lparr> alerts := alerts h @ [a] \<rparr>"

definition initialDefenseState :: EmergencyDefenseState where
  "initialDefenseState =
     \<lparr> isActive = False, originalBrightness = None, batterySavingEnabled = False,
       locationSent = False, falseAlarmDisabled = False, falseAlarmDisabledUntil = None,
       brightnessRestored = False, isInitialized = False \<rparr>"

definition clearBodyStyle :: "DefenseHook \<Rightarrow> DefenseHook" where
  "clearBodyStyle h = h \<lparr> bodyFilter := [], bodyAnimationPlayState := [], bodyTransition := [] \<rparr>"

text \<open>
  \<open>initializeBrightnessState\<close>.  Both the regular path and the \<open>catch\<close> set
  \<open>isInitialized\<close>.
\<close>

definition initializeBrightnessState :: "EmergencyDefenseState \<Rightarrow> Device \<Rightarrow> DefenseHook \<Rightarrow> DefenseHook" where
  "initializeBrightnessState captured d h =
     (if initializationAttempted h \<or> isInitialized captured then h
      else
        (let h1 = h \<lparr> initializationAttempted := True \<rparr>;
             h2 = (case OS d of
                     Native \<Rightarrow>
                       (if getBrightnessThrows d then h1
                        else if screenBrightness h1 < 0.3 \<and> \<not> setBrightnessThrows d
                        then h1 \<lparr> screenBrightness := 0.8 \<rparr>
                        else h1)
                   | Web \<Rightarrow> (if documentThrows d then h1 else clearBodyStyle h1))
         in setDefenseState (\<lambda>prev. prev \<lparr> isInitialized := True \<rparr>) h2))"

text \<open>
  \<open>activateEmergencyDefense\<close>.  The three measures are tried one after the other, each in
  its own \<open>try/catch\<close>; the outer \<open>catch\<close> is not reached, since nothing outside the
  inner ones throws.
\<close>

definition activateEmergencyDefense :: "EmergencyDefenseState \<Rightarrow> Device \<Rightarrow> DefenseHook \<Rightarrow> bool \<times> DefenseHook" where
  "activateEmergencyDefense captured d h =
     (let h0 = (if \<not> isInitialized captured then initializeBrightnessState captured d h else h)
      in if falseAlarmDisabled captured
         then
           (let timeRemaining =
                  (case falseAlarmDisabledUntil captured of
                     Some until \<Rightarrow> \<lceil>real_of_int (until - newDate d) / (1000 * 60)\<rceil>
                   | None \<Rightarrow> 0)
            in (False, Alert_alert (DefenseDisabledAlert timeRemaining) h0))
         else
           (let (brightnessSuccess, original, h1) =
                  (case OS d of
                     Native \<Rightarrow>
                       (if getBrightnessThrows d then (False, None, h0)
                        else
                          (let currentBrightness = screenBrightness h0
                           in if currentBrightness > 0.2
                              then (if setBrightnessThrows d
                                    then (False, Some currentBrightness, h0)
                                    else (True, Some currentBrightness, h0 \<lparr> screenBrightness := 0.1 \<rparr>))
                              else (True, Some currentBrightness, h0)))
                   | Web \<Rightarrow>
                       (if documentThrows d then (False, None, h0)
                        else (True, None, h0 \<lparr> bodyFilter := ''brightness(0.3)'' \<rparr>)));
                (batterySavingSuccess, h2) =
                  (case OS d of
                     Native \<Rightarrow> (True, h1)
                   | Web \<Rightarrow>
                       (if documentThrows d then (False, h1)
                        else (True, h1 \<lparr> bodyAnimationPlayState := ''paused'',
                                         bodyTransition := ''none'' \<rparr>)));
                (locationSuccess, h3) =
                  (case currentLocation d of
                     Throws \<Rightarrow> (False, h2)
                   | Returns None \<Rightarrow> (False, h2)
                   | Returns (Some fix) \<Rightarrow>
                       (let emergencyData =
                              \<lparr> EmergencyLocation.user_id = ''anonymous-user'',
                                EmergencyLocation.latitude = GeoPoint.latitude fix,
                                EmergencyLocation.longitude = GeoPoint.longitude fix,
                                EmergencyLocation.timestamp = newDate d + 3 * 60 * 60 * 1000,
                                emergency = True \<rparr>;
                            sent = h2 \<lparr> user_locations := user_locations h2 @ [emergencyData] \<rparr>
                        in (insertAnswer d = Returns True, sent)));
                h4 = setDefenseState
                       (\<lambda>prev. prev \<lparr> isActive := True,
                                       originalBrightness := original,
                                       batterySavingEnabled := batterySavingSuccess,
                                       locationSent := locationSuccess,
                                       brightnessRestored := False \<rparr>) h3;
                successCount = length (filter id [brightnessSuccess, batterySavingSuccess, locationSuccess]);
                h5 = Alert_alert (DefenseActivatedAlert brightnessSuccess batterySavingSuccess locationSuccess) h4
            in (successCount > 0, h5)))"

text \<open>
  \<open>deactivateEmergencyDefense\<close>.  \<open>defenseState.originalBrightness || 0.8\<close> takes 0.8 for
  \<open>null\<close> and for 0.
\<close>

definition deactivateEmergencyDefense :: "EmergencyDefenseState \<Rightarrow> Device \<Rightarrow> DefenseHook \<Rightarrow> bool \<times> DefenseHook" where
  "deactivateEmergencyDefense captured d h =
     (let h1 = (case OS d of
                  Native \<Rightarrow>
                    (let targetBrightness =
                           (case originalBrightness captured of
                              None \<Rightarrow> 0.8
                            | Some b \<Rightarrow> if b = 0 then 0.8 else b)
                     in if setBrightnessThrows d then h
                        else h \<lparr> screenBrightness := targetBrightness \<rparr>)
                | Web \<Rightarrow> (if documentThrows d then h else clearBodyStyle h));
          h2 = setDefenseState
                 (\<lambda>prev. prev \<lparr> isActive := False,
                                 originalBrightness := None,
                                 batterySavingEnabled := False,
                                 locationSent := False,
                                 brightnessRestored := False \<rparr>) h1;
          h3 = Alert_alert DefenseDeactivatedAlert h2
      in (True, h3))"

text \<open>\<open>checkFalseAlarmStatus\<close>, for the closure that captured \<open>capturedUntil\<close>.\<close>

definition checkFalseAlarmStatus :: "int option \<Rightarrow> Device \<Rightarrow> DefenseHook \<Rightarrow> DefenseHook" where
  "checkFalseAlarmStatus capturedUntil d h =
     (case capturedUntil of
        None \<Rightarrow> h
      | Some until \<Rightarrow>
          if newDate d \<ge> until
          then (setDefenseState
                  (\<lambda>prev. prev \<lparr> falseAlarmDisabled := False, falseAlarmDisabledUntil := None \<rparr>) h)
                 \<lparr> falseAlarmCheckInterval := None \<rparr>
          else h)"

text \<open>
  \<open>disableForFalseAlarm\<close>.  \<open>setMinutes(getMinutes() + 30)\<close> is taken as 30 minutes of
  elapsed time.  The interval is registered with the \<open>checkFalseAlarmStatus\<close> of the
  render that made this closure, before the lock it sets is part of any render.
\<close>

definition disableForFalseAlarm :: "EmergencyDefenseState \<Rightarrow> Device \<Rightarrow> DefenseHook \<Rightarrow> bool \<times> DefenseHook" where
  "disableForFalseAlarm captured d h =
     (let disabledUntil = newDate d + 30 * 60 * 1000;
          h1 = (if isActive captured then snd (deactivateEmergencyDefense captured d h) else h);
          h2 = setDefenseState
                 (\<lambda>prev. prev \<lparr> falseAlarmDisabled := True,
                                 falseAlarmDisabledUntil := Some disabledUntil \<rparr>) h1;
          h3 = h2 \<lparr> falseAlarmCheckInterval := Some (EveryMinute (falseAlarmDisabledUntil captured)) \<rparr>;
          h4 = Alert_alert FalseAlarmProtectionAlert h3
      in (True, h4))"

text \<open>One firing of the registered interval, if there is one.\<close>

definition intervalFires :: "Device \<Rightarrow> DefenseHook \<Rightarrow> DefenseHook" where
  "intervalFires d h =
     (case falseAlarmCheckInterval h of
        None \<Rightarrow> h
      | Some (EveryMinute capturedUntil) \<Rightarrow> checkFalseAlarmStatus capturedUntil d h)"

text \<open>
  What happens to the hook from outside: an activation attempt (from the detector or
  the button), a deactivation, the false-alarm button, or a firing of the interval;
  each with what the collaborators do meanwhile.  The three functions are those of the
  latest render.
\<close>

datatype action = Activate | Deactivate | FalseAlarm | Minute

fun perform :: "DefenseHook \<Rightarrow> action \<times> Device \<Rightarrow> DefenseHook" where
  "perform h (Activate, d) = snd (activateEmergencyDefense (defenseState h) d h)"
| "perform h (Deactivate, d) = snd (deactivateEmergencyDefense (defenseState h) d h)"
| "perform h (FalseAlarm, d) = snd (disableForFalseAlarm (defenseState h) d h)"
| "perform h (Minute, d) = intervalFires d h"

text \<open>The state the hook starts in, and a test device: a phone whose collaborators all work.\<close>

definition initialHook :: DefenseHook where
  "initialHook =
     \<lparr> defenseState = initialDefenseState, falseAlarmCheckInterval = None,
       initializationAttempted = False, screenBrightness = 0.8, bodyFilter = [],
       bodyAnimationPlayState = [], bodyTransition = [], alerts = [], user_locations = [] \<rparr>"

definition phoneAt :: "int \<Rightarrow> Device" where
  "phoneAt t =
     \<lparr> newDate = t, OS = Native, getBrightnessThrows = False, setBrightnessThrows = False,
       documentThrows = False, currentLocation = Returns None, insertAnswer = Returns True \<rparr>"

text \<open>
  The state that the false-alarm button leaves behind when it is pressed in a render
  without a lock: locked until \<open>until\<close>, inactive, and polled by a callback that has
  captured no expiry time.
\<close>

definition lockedUntil :: "int \<Rightarrow> DefenseHook \<Rightarrow> bool" where
  "lockedUntil until h \<longleftrightarrow>
     falseAlarmDisabled (defenseState h) \<and>
     falseAlarmDisabledUntil (defenseState h) = Some until \<and>
     \<not> isActive (defenseState h) \<and>
     falseAlarmCheckInterval h = Some (EveryMinute None)"
section \<open>Intensity Calculator in the range of JavaScript numbers: definitions\<close>

text \<open>
  The detector above computes in \<^typ>\<open>real\<close>, which is right as long as no intermediate
  result leaves the range of an IEEE 754 double.  To settle what happens outside it, the
  intensity computation is embedded a second time over a model of JavaScript numbers
  that has the two infinities and NaN: a finite result whose magnitude reaches
  \<open>2^1024 - 2^970\<close> (the point from which round-to-nearest yields an infinity) overflows,
  and a finite result below that point is kept exact (rounding inside the range and
  signed zeros are not modelled).
\<close>

datatype number = Finite real | PosInfinity | NegInfinity | NaN

definition overflowThreshold :: real where
  "overflowThreshold = 2 ^ 1024 - 2 ^ 970"

definition rounded :: "real \<Rightarrow> number" where
  "rounded r =
     (if overflowThreshold \<le> r then PosInfinity
      else if r \<le> - overflowThreshold then NegInfinity
      else Finite r)"

fun times_number :: "number \<Rightarrow> number \<Rightarrow> number" where
  "times_number NaN _ = NaN"
| "times_number _ NaN = NaN"
| "times_number (Finite a) (Finite b) = rounded (a * b)"
| "times_number (Finite a) PosInfinity =
     (if a = 0 then NaN else if 0 < a then PosInfinity else NegInfinity)"
| "times_number (Finite a) NegInfinity =
     (if a = 0 then NaN else if 0 < a then NegInfinity else PosInfinity)"
| "times_number PosInfinity (Finite b) =
     (if b = 0 then NaN else if 0 < b then PosInfinity else NegInfinity)"
| "times_number NegInfinity (Finite b) =
     (if b = 0 then NaN else if 0 < b then NegInfinity else PosInfinity)"
| "times_number PosInfinity PosInfinity = PosInfinity"
| "times_number PosInfinity NegInfinity = NegInfinity"
| "times_number NegInfinity PosInfinity = NegInfinity"
| "times_number NegInfinity NegInfinity = PosInfinity"

fun plus_number :: "number \<Rightarrow> number \<Rightarrow> number" where
  "plus_number NaN _ = NaN"
| "plus_number _ NaN = NaN"
| "plus_number (Finite a) (Finite b) = rounded (a + b)"
| "plus_number PosInfinity NegInfinity = NaN"
| "plus_number NegInfinity PosInfinity = NaN"
| "plus_number PosInfinity _ = PosInfinity"
| "plus_number NegInfinity _ = NegInfinity"
| "plus_number (Finite a) b = b"

fun uminus_number :: "number \<Rightarrow> number" where
  "uminus_number (Finite a) = Finite (- a)"
| "uminus_number PosInfinity = NegInfinity"
| "uminus_number NegInfinity = PosInfinity"
| "uminus_number NaN = NaN"

definition minus_number :: "number \<Rightarrow> number \<Rightarrow> number" where
  "minus_number a b = plus_number a (uminus_number b)"

fun Math_sqrt :: "number \<Rightarrow> number" where
  "Math_sqrt (Finite a) = (if a < 0 then NaN else Finite (sqrt a))"
| "Math_sqrt PosInfinity = PosInfinity"
| "Math_sqrt NegInfinity = NaN"
| "Math_sqrt NaN = NaN"

fun Math_abs :: "number \<Rightarrow> number" where
  "Math_abs (Finite a) = Finite \<bar>a\<bar>"
| "Math_abs PosInfinity = PosInfinity"
| "Math_abs NegInfinity = PosInfinity"
| "Math_abs NaN = NaN"

text \<open>
  \<open>calculateMagnitude\<close> on the three components of a sample and the first three
  statements of \<open>detectEarthquake\<close>, with the operators above.
\<close>

definition calculateMagnitude_number :: "number \<Rightarrow> number \<Rightarrow> number \<Rightarrow> number" where
  "calculateMagnitude_number dx dy dz =
     Math_sqrt (plus_number (plus_number (times_number dx dx) (times_number dy dy))
                            (times_number dz dz))"

definition combinedIntensity_number :: "number \<Rightarrow> number \<Rightarrow> number" where
  "combinedIntensity_number accelMagnitude gyroMagnitude =
     (let accelDeviation = Math_abs (minus_number accelMagnitude (Finite 9.81));
          gyroIntensity = times_number gyroMagnitude (Finite 15)
      in plus_number accelDeviation gyroIntensity)"

text \<open>A number that is neither negative nor NaN.\<close>

fun nonNegative :: "number \<Rightarrow> bool" where
  "nonNegative (Finite a) = (0 \<le> a)"
| "nonNegative PosInfinity = True"
| "nonNegative NegInfinity = False"
| "nonNegative NaN = False"
section \<open>Geo Warning Engine: theorems\<close>

lemma set_insertBy: "set (insertBy compare a bs) = insert a (set bs)"
  by (induction bs) auto

lemma set_Array_sort: "set (Array_sort compare xs) = set xs"
  unfolding Array_sort_def by (induction xs) (auto simp: set_insertBy)

lemma sorted_insertBy:
  "sorted_wrt (\<lambda>a b. key a \<le> key b) bs \<Longrightarrow>
   sorted_wrt (\<lambda>a b. key a \<le> (key b :: real)) (insertBy (\<lambda>a b. key a - key b) e bs)"
  by (induction bs) (auto simp: set_insertBy)

lemma sorted_Array_sort:
  "sorted_wrt (\<lambda>a b. key a \<le> (key b :: real)) (Array_sort (\<lambda>a b. key a - key b) xs)"
  unfolding Array_sort_def by (induction xs) (auto intro: sorted_insertBy)

lemma set_foldl_pushWarning:
  "set (foldl (pushWarning eLat eLon) ws us) =
     set ws \<union> {w. \<exists>u \<in> set us.
        warningForDistance u (calculateHaversineDistance eLat eLon
          (UserLocation.latitude u) (UserLocation.longitude u)) = Some w}"
  by (induction us arbitrary: ws) (auto simp: pushWarning_def Let_def split: option.splits)

lemma set_calculateWarningsForUsers:
  "set (calculateWarningsForUsers eLat eLon magnitude response) =
     {w. \<exists>u \<in> set (getRecentUserLocations response).
        warningForDistance u (calculateHaversineDistance eLat eLon
          (UserLocation.latitude u) (UserLocation.longitude u)) = Some w}"
  by (simp add: calculateWarningsForUsers_def Let_def set_Array_sort set_foldl_pushWarning)

lemma warningForDistance_Some:
  "warningForDistance u d = Some w \<Longrightarrow>
     1 \<le> distance_km w \<and> distance_km w = d \<and> WarningCalculation.user_id w = UserLocation.user_id u \<and>
     arrival_time_seconds w = d / 3.5 \<and> is_urgent w = (arrival_time_seconds w < 10)"
  by (auto simp: warningForDistance_def calculateArrivalTime_def DEFAULT_WAVE_SPEED_def S_WAVE_def Let_def split: if_splits)

lemma userLocationMap_keys:
  "distinct (map fst m) \<Longrightarrow> (\<forall>p \<in> set m. UserLocation.user_id (snd p) = fst p) \<Longrightarrow>
   distinct (map fst (userLocationMap rows m)) \<and>
   (\<forall>p \<in> set (userLocationMap rows m). UserLocation.user_id (snd p) = fst p)"
proof (induction rows arbitrary: m)
  case Nil
  then show ?case by simp
next
  case (Cons location rest)
  show ?case
  proof (cases "map_of m (UserLocation.user_id location) = None")
    case True
    then have "UserLocation.user_id location \<notin> fst ` set m"
      by (simp add: map_of_eq_None_iff)
    with Cons.prems have
      "distinct (map fst (m @ [(UserLocation.user_id location, location)]))"
      "\<forall>p \<in> set (m @ [(UserLocation.user_id location, location)]). UserLocation.user_id (snd p) = fst p"
      by auto
    from Cons.IH [OF this] True show ?thesis by simp
  next
    case False
    with Cons.IH [OF Cons.prems] show ?thesis by auto
  qed
qed

lemma getRecentUserLocations_one_per_user:
  assumes "u \<in> set (getRecentUserLocations response)"
      and "u' \<in> set (getRecentUserLocations response)"
      and "UserLocation.user_id u = UserLocation.user_id u'"
  shows "u = u'"
proof (cases response)
  case (QueryRows rows)
  let ?m = "userLocationMap rows []"
  have inv: "distinct (map fst ?m)" "\<forall>p \<in> set ?m. UserLocation.user_id (snd p) = fst p"
    using userLocationMap_keys [of "[]" rows] by simp_all
  from assms QueryRows obtain k k' where p: "(k, u) \<in> set ?m" "(k', u') \<in> set ?m"
    by (auto simp: getRecentUserLocations_def)
  from inv(2) p(1) have "UserLocation.user_id u = k" by force
  moreover from inv(2) p(2) have "UserLocation.user_id u' = k'" by force
  ultimately have "k = k'" using assms(3) by simp
  with p inv(1) show ?thesis by (metis eq_key_imp_eq_value)
qed (use assms in \<open>simp_all add: getRecentUserLocations_def\<close>)

lemma haversine_a_sym:
  "sin (toRadians (p - q) / 2) * sin (toRadians (p - q) / 2) =
   sin (toRadians (q - p) / 2) * sin (toRadians (q - p) / 2)"
proof -
  have "toRadians (p - q) = (- (q - p)) * (pi / 180)"
    by (simp add: toRadians_def)
  also have "\<dots> = - toRadians (q - p)"
    unfolding toRadians_def by (rule mult_minus_left)
  finally show ?thesis by simp
qed

lemma haversine_antipode: "calculateHaversineDistance 0 0 0 180 = 6371 * pi"
  by (simp add: calculateHaversineDistance_def toRadians_def Math_atan2_def)

lemma haversine_origin: "calculateHaversineDistance 0 0 0 0 = 0"
  by (simp add: calculateHaversineDistance_def toRadians_def Math_atan2_def)

lemma example_directory:
  "getRecentUserLocations (QueryRows
      [\<lparr>UserLocation.user_id = ''reporter'', latitude = 0, longitude = 0, timestamp = ''t2''\<rparr>,
       \<lparr>UserLocation.user_id = ''far'', latitude = 0, longitude = 180, timestamp = ''t1''\<rparr>,
       \<lparr>UserLocation.user_id = ''far'', latitude = 0, longitude = 0, timestamp = ''t0''\<rparr>]) =
      [\<lparr>UserLocation.user_id = ''reporter'', latitude = 0, longitude = 0, timestamp = ''t2''\<rparr>,
       \<lparr>UserLocation.user_id = ''far'', latitude = 0, longitude = 180, timestamp = ''t1''\<rparr>]"
  by (simp add: getRecentUserLocations_def)


lemma example_warnings:
  "calculateWarningsForUsers 0 0 5 (QueryRows
      [\<lparr>UserLocation.user_id = ''reporter'', latitude = 0, longitude = 0, timestamp = ''t2''\<rparr>,
       \<lparr>UserLocation.user_id = ''far'', latitude = 0, longitude = 180, timestamp = ''t1''\<rparr>,
       \<lparr>UserLocation.user_id = ''far'', latitude = 0, longitude = 0, timestamp = ''t0''\<rparr>]) =
      [\<lparr>WarningCalculation.user_id = ''far'', distance_km = 6371 * pi,
        arrival_time_seconds = 6371 * pi / 3.5, is_urgent = False,
        user_location = \<lparr>GeoPoint.latitude = 0, GeoPoint.longitude = 180\<rparr>\<rparr>]"
  using pi_ge_two
  by (simp add: calculateWarningsForUsers_def example_directory pushWarning_def
      haversine_origin haversine_antipode warningForDistance_def calculateArrivalTime_def
      DEFAULT_WAVE_SPEED_def S_WAVE_def Array_sort_def)

text \<open>
  Claim C4.  The arrival time is the distance divided by the wave speed, which defaults
  to 3.5 km/s: \<open>calculateArrivalTime(350, 3.5) = 100\<close> and
  \<open>calculateArrivalTime(35, 3.5) = 10\<close>.  Every warning that
  \<open>calculateWarningsForUsers\<close> returns is urgent exactly when its arrival time is
  strictly below 10 seconds: a user at 35 km (arrival time exactly 10 s) is not urgent,
  one with an arrival time of 9.99 s is.
\<close>

theorem arrival_time_and_urgency:
  "calculateArrivalTime d None = d / 3.5 \<and>
   (v \<noteq> 0 \<longrightarrow> calculateArrivalTime d (Some v) = d / v) \<and>
   calculateArrivalTime 350 (Some 3.5) = 100 \<and>
   calculateArrivalTime 35 (Some 3.5) = 10 \<and>
   (\<forall>w \<in> set (calculateWarningsForUsers eLat eLon magnitude response).
      arrival_time_seconds w = distance_km w / 3.5 \<and>
      is_urgent w = (arrival_time_seconds w < 10)) \<and>
   map_option arrival_time_seconds (warningForDistance u 35) = Some 10 \<and>
   map_option is_urgent (warningForDistance u 35) = Some False \<and>
   map_option arrival_time_seconds (warningForDistance u (9.99 * 3.5)) = Some 9.99 \<and>
   map_option is_urgent (warningForDistance u (9.99 * 3.5)) = Some True"
proof -
  have a: "calculateArrivalTime d None = d / 3.5"
    by (simp add: calculateArrivalTime_def DEFAULT_WAVE_SPEED_def S_WAVE_def)
  have b: "v \<noteq> 0 \<longrightarrow> calculateArrivalTime d (Some v) = d / v"
    by (simp add: calculateArrivalTime_def)
  have c: "calculateArrivalTime 350 (Some 3.5) = 100" "calculateArrivalTime 35 (Some 3.5) = 10"
    by (simp_all add: calculateArrivalTime_def)
  have e: "\<forall>w \<in> set (calculateWarningsForUsers eLat eLon magnitude response).
      arrival_time_seconds w = distance_km w / 3.5 \<and>
      is_urgent w = (arrival_time_seconds w < 10)"
  proof
    fix w assume "w \<in> set (calculateWarningsForUsers eLat eLon magnitude response)"
    then obtain u' d' where "warningForDistance u' d' = Some w"
      unfolding set_calculateWarningsForUsers by blast
    from warningForDistance_Some [OF this]
    show "arrival_time_seconds w = distance_km w / 3.5 \<and> is_urgent w = (arrival_time_seconds w < 10)"
      by simp
  qed
  have f: "map_option arrival_time_seconds (warningForDistance u 35) = Some 10"
     "map_option is_urgent (warningForDistance u 35) = Some False"
     "map_option arrival_time_seconds (warningForDistance u (9.99 * 3.5)) = Some 9.99"
     "map_option is_urgent (warningForDistance u (9.99 * 3.5)) = Some True"
    by (simp_all add: warningForDistance_def calculateArrivalTime_def DEFAULT_WAVE_SPEED_def S_WAVE_def Let_def)
  from a b c e f show ?thesis by blast
qed

theorem arrival_time_and_urgency_witness:
  "(let response = QueryRows
      [\<lparr>UserLocation.user_id = ''reporter'', latitude = 0, longitude = 0, timestamp = ''t2''\<rparr>,
       \<lparr>UserLocation.user_id = ''far'', latitude = 0, longitude = 180, timestamp = ''t1''\<rparr>,
       \<lparr>UserLocation.user_id = ''far'', latitude = 0, longitude = 0, timestamp = ''t0''\<rparr>]
    in (6::real) \<noteq> 0 \<and> calculateArrivalTime 350 (Some 6) = 350 / 6 \<and>
       calculateWarningsForUsers 0 0 5 response \<noteq> [] \<and>
       is_urgent (hd (calculateWarningsForUsers 0 0 5 response)) =
         (arrival_time_seconds (hd (calculateWarningsForUsers 0 0 5 response)) < 10))"
  using arrival_time_and_urgency [where d = 350 and v = 6 and eLat = 0 and eLon = 0 and magnitude = 5
      and response = "QueryRows
      [\<lparr>UserLocation.user_id = ''reporter'', latitude = 0, longitude = 0, timestamp = ''t2''\<rparr>,
       \<lparr>UserLocation.user_id = ''far'', latitude = 0, longitude = 180, timestamp = ''t1''\<rparr>,
       \<lparr>UserLocation.user_id = ''far'', latitude = 0, longitude = 0, timestamp = ''t0''\<rparr>]"]
  by (simp add: example_warnings)

text \<open>
  Claim C7.  The haversine distance from \<open>(0, 0)\<close> to \<open>(0, 0)\<close> is 0, and the distance is
  symmetric in its two points.  The Earth radius is 6371 km: two antipodal points on
  the equator are half a circumference, \<open>6371 * \<pi>\<close> km, apart.
\<close>

theorem haversine_zero_and_symmetric:
  "calculateHaversineDistance 0 0 0 0 = 0 \<and>
   calculateHaversineDistance lat1 lon1 lat2 lon2 = calculateHaversineDistance lat2 lon2 lat1 lon1 \<and>
   calculateHaversineDistance 0 0 0 180 = 6371 * pi"
proof (intro conjI)
  show "calculateHaversineDistance 0 0 0 0 = 0"
    by (rule haversine_origin)
next
  show "calculateHaversineDistance lat1 lon1 lat2 lon2 = calculateHaversineDistance lat2 lon2 lat1 lon1"
    unfolding calculateHaversineDistance_def Let_def
    using haversine_a_sym [of lat2 lat1] haversine_a_sym [of lon2 lon1]
    by (simp add: mult.assoc mult.left_commute)
next
  show "calculateHaversineDistance 0 0 0 180 = 6371 * pi"
    by (rule haversine_antipode)
qed
section \<open>Event Detector: theorems\<close>

lemma calculateMagnitude_z: "calculateMagnitude \<lparr> x = 0, y = 0, z = c \<rparr> = \<bar>c\<bar>"
  by (simp add: calculateMagnitude_def)

lemma foldl_plus_sum_list: "foldl (\<lambda>sum val. sum + val) a buffer = a + sum_list buffer"
  for a :: real
  by (induction buffer arbitrary: a) simp_all

text \<open>The average taken by \<open>reduce\<close> is the sum of the window over its length.\<close>

lemma mean_sum_list: "mean buffer = sum_list buffer / real (length buffer)"
  by (simp add: mean_def foldl_plus_sum_list)

lemma pushCapped_window:
  assumes "length buffer \<le> cap"
  shows "pushCapped cap v buffer = drop (length buffer + 1 - cap) (buffer @ [v])"
proof (cases "length buffer = cap")
  case True
  then show ?thesis by (cases buffer) (auto simp: pushCapped_def Let_def)
next
  case False
  with assms have "length buffer < cap" by simp
  then show ?thesis by (simp add: pushCapped_def Let_def)
qed

text \<open>
  The decision taken when a sensor update arrives while no event is running: an event
  starts exactly if the intensity of the update exceeds the threshold, the sum of the
  window (the last \<open>BUFFER_SIZE\<close> intensities, this one included) over its length
  exceeds 0.8 times the threshold, and the clock is more than \<open>DETECTION_COOLDOWN\<close>
  past the value that \<open>lastDetectionTime\<close> holds at that moment.
\<close>

lemma detectEarthquake_starts_iff:
  assumes "\<not> isInEvent s" and "length (detectionBuffer s) \<le> 10"
  shows "isInEvent (detectEarthquake env accelMagnitude gyroMagnitude s) \<longleftrightarrow>
           combinedIntensity accelMagnitude gyroMagnitude > 1.2 * sensitivity env \<and>
           sum_list (drop (length (detectionBuffer s) + 1 - 10)
                       (detectionBuffer s @ [combinedIntensity accelMagnitude gyroMagnitude])) /
             real (length (drop (length (detectionBuffer s) + 1 - 10)
                       (detectionBuffer s @ [combinedIntensity accelMagnitude gyroMagnitude])))
             > 1.2 * sensitivity env * 0.8 \<and>
           now env - lastDetectionTime s > 10000"
    and "eventsStarted (detectEarthquake env accelMagnitude gyroMagnitude s) =
           (if isInEvent (detectEarthquake env accelMagnitude gyroMagnitude s)
            then eventsStarted s @ [now env] else eventsStarted s)"
proof -
  define i where "i = combinedIntensity accelMagnitude gyroMagnitude"
  define w where "w = drop (length (detectionBuffer s) + 1 - 10) (detectionBuffer s @ [i])"
  have w: "pushCapped BUFFER_SIZE i (detectionBuffer s) = w"
    using assms(2) by (simp add: w_def pushCapped_window BUFFER_SIZE_def)
  have started: "isInEvent (detectEarthquake env accelMagnitude gyroMagnitude s) \<longleftrightarrow>
      i > 1.2 * sensitivity env \<and> sum_list w / real (length w) > 1.2 * sensitivity env * 0.8 \<and>
      now env - lastDetectionTime s > 10000"
    using assms(1)
    by (simp add: detectEarthquake_def Let_def isAboveThreshold_def suspend_def
        updatePeakAcceleration_def mean_sum_list i_def [symmetric] w DETECTION_COOLDOWN_def
        mult.commute)
  then show "isInEvent (detectEarthquake env accelMagnitude gyroMagnitude s) \<longleftrightarrow>
           combinedIntensity accelMagnitude gyroMagnitude > 1.2 * sensitivity env \<and>
           sum_list (drop (length (detectionBuffer s) + 1 - 10)
                       (detectionBuffer s @ [combinedIntensity accelMagnitude gyroMagnitude])) /
             real (length (drop (length (detectionBuffer s) + 1 - 10)
                       (detectionBuffer s @ [combinedIntensity accelMagnitude gyroMagnitude])))
             > 1.2 * sensitivity env * 0.8 \<and>
           now env - lastDetectionTime s > 10000"
    unfolding i_def w_def .
  show "eventsStarted (detectEarthquake env accelMagnitude gyroMagnitude s) =
           (if isInEvent (detectEarthquake env accelMagnitude gyroMagnitude s)
            then eventsStarted s @ [now env] else eventsStarted s)"
    using assms(1)
    by (simp add: detectEarthquake_def Let_def isAboveThreshold_def suspend_def
        updatePeakAcceleration_def)
qed

lemmas detector_defs =
  runDetector_def sampleAt_def onSample_def detectEarthquake_def calculateMagnitude_z
  combinedIntensity_def pushCapped_def mean_def isAboveThreshold_def suspend_def
  updatePeakAcceleration_def captureEarthquakeLocation_def activateEmergencyDefenseIfNeeded_def
  activationAnswered_def addEarthquakeEvent_def saveEarthquakeToDatabase_def resetEventState_def
  startBranchEnds_def startBranchActivates_def inEventBranchEnds_def continue_def resume_def
  clearEarthquakeDetected_def initialDetector_def Let_def
  DETECTION_COOLDOWN_def BUFFER_SIZE_def MIN_EVENT_DURATION_def INTENSITY_BUFFER_SIZE_def
  EMERGENCY_DEFENSE_THRESHOLD_def

text \<open>
  When every handler has finished before the next sensor update arrives, the detector
  behaves as the comments of the source say.  A strong reading at 20 s starts an event
  (the location provider answers 10 ms later); a calm reading 1.5 s after the start ends
  it without a record, and one 2.5 s after the start ends it with one record in the
  history and one row for the database; the event state is reset in both cases.
\<close>

lemma one_handler_at_a_time_short_excursion:
  "runDetector initialDetector
     [sampleAt 20000 13.81 True,
      Resumption 0 (LocationAnswer (Returns None)) 20010,
      Resumption 0 (DefenseAnswer (Returns True)) 20020,
      sampleAt 21500 9.81 True] =
   \<lparr> detectionBuffer = [4, 0], lastDetectionTime = 20000, eventStartTime = 20000,
     isInEvent = False, Detector.peakAcceleration = 0, eventIntensityBuffer = [],
     eventLocationCaptured = False, defenseActivationAttempted = False,
     earthquakeDetected = True, earthquakeIntensity = 0, lastEarthquakeTime = Some 20020,
     currentEventLocation = None, emergencyDefenseActivated = False,
     earthquakeHistory = [], earthquake_events = [], defenseActivationCalls = 1,
     eventsStarted = [20000], suspended = [] \<rparr>"
  by (simp add: detector_defs)

lemma one_handler_at_a_time_long_excursion:
  "runDetector initialDetector
     [sampleAt 20000 13.81 True,
      Resumption 0 (LocationAnswer (Returns None)) 20010,
      Resumption 0 (DefenseAnswer (Returns True)) 20020,
      sampleAt 21000 13.81 True,
      sampleAt 22500 9.81 True,
      Resumption 0 (InsertAnswer (Returns True)) 22550] =
   \<lparr> detectionBuffer = [4, 4, 0], lastDetectionTime = 20000, eventStartTime = 20000,
     isInEvent = False, Detector.peakAcceleration = 0, eventIntensityBuffer = [],
     eventLocationCaptured = False, defenseActivationAttempted = False,
     earthquakeDetected = True, earthquakeIntensity = 0, lastEarthquakeTime = Some 20020,
     currentEventLocation = None, emergencyDefenseActivated = False,
     earthquakeHistory =
       [\<lparr> EarthquakeEvent.timestamp = 20000, EarthquakeEvent.intensity = 8 / 3,
          EarthquakeEvent.duration = 5 / 2, EarthquakeEvent.peakAcceleration = 1381 / 100 \<rparr>],
     earthquake_events =
       [\<lparr> EarthquakeEventData.user_id = ''anonymous-user'',
          EarthquakeEventData.intensity = 8 / 3, EarthquakeEventData.duration = 5 / 2,
          peak_acceleration = 1381 / 100, EarthquakeEventData.latitude = None,
          EarthquakeEventData.longitude = None, EarthquakeEventData.timestamp = 10820000 \<rparr>],
     defenseActivationCalls = 1, eventsStarted = [20000], suspended = [] \<rparr>"
  by (simp add: detector_defs)

text \<open>
  Claim C1 (an event is finalized, i.e. appended to the history and written to the
  database, if and only if it lasted at least 2.0 seconds, a shorter excursion leaves
  no record, and the event state is reset either way).  The handler resets
  \<open>isInEvent\<close> only after the insert it awaits has answered, and nothing keeps a
  second handler out meanwhile.  In the first run below one event starts at 20 s; a
  calm reading arrives 2.5 s later and a second one 100 ms after it, while the insert
  of the first is still in flight: the one event is finalized twice, with two
  records in the history and two rows passed to the database.  In the second run the
  excursion lasts 1 s and is dropped, but the location provider answers the handler
  that started it only at 23.5 s: that handler then writes the event state again, so
  after the reset the detector is idle with \<open>eventLocationCaptured\<close> set and a
  \<open>currentEventLocation\<close>.
\<close>

theorem overlapping_updates_finalize_one_event_twice:
  "runDetector initialDetector
     [sampleAt 20000 13.81 False,
      Resumption 0 (LocationAnswer (Returns None)) 20050,
      sampleAt 22500 9.81 False,
      sampleAt 22600 9.81 False,
      Resumption 0 (InsertAnswer (Returns True)) 22700,
      Resumption 0 (InsertAnswer (Returns True)) 22800] =
   \<lparr> detectionBuffer = [4, 0, 0], lastDetectionTime = 20000, eventStartTime = 20000,
     isInEvent = False, Detector.peakAcceleration = 0, eventIntensityBuffer = [],
     eventLocationCaptured = False, defenseActivationAttempted = False,
     earthquakeDetected = True, earthquakeIntensity = 0, lastEarthquakeTime = Some 20050,
     currentEventLocation = None, emergencyDefenseActivated = False,
     earthquakeHistory =
       [\<lparr> EarthquakeEvent.timestamp = 20000, EarthquakeEvent.intensity = 4 / 3,
          EarthquakeEvent.duration = 13 / 5, EarthquakeEvent.peakAcceleration = 1381 / 100 \<rparr>,
        \<lparr> EarthquakeEvent.timestamp = 20000, EarthquakeEvent.intensity = 2,
          EarthquakeEvent.duration = 5 / 2, EarthquakeEvent.peakAcceleration = 1381 / 100 \<rparr>],
     earthquake_events =
       [\<lparr> EarthquakeEventData.user_id = ''anonymous-user'',
          EarthquakeEventData.intensity = 2, EarthquakeEventData.duration = 5 / 2,
          peak_acceleration = 1381 / 100, EarthquakeEventData.latitude = None,
          EarthquakeEventData.longitude = None, EarthquakeEventData.timestamp = 10820000 \<rparr>,
        \<lparr> EarthquakeEventData.user_id = ''anonymous-user'',
          EarthquakeEventData.intensity = 4 / 3, EarthquakeEventData.duration = 13 / 5,
          peak_acceleration = 1381 / 100, EarthquakeEventData.latitude = None,
          EarthquakeEventData.longitude = None, EarthquakeEventData.timestamp = 10820000 \<rparr>],
     defenseActivationCalls = 0, eventsStarted = [20000], suspended = [] \<rparr> \<and>
   runDetector initialDetector
     [sampleAt 20000 13.81 False,
      sampleAt 21000 9.81 False,
      Resumption 0 (LocationAnswer
        (Returns (Some \<lparr> GeoPoint.latitude = 41, GeoPoint.longitude = 29 \<rparr>))) 23500] =
   \<lparr> detectionBuffer = [4, 0], lastDetectionTime = 20000, eventStartTime = 20000,
     isInEvent = False, Detector.peakAcceleration = 0, eventIntensityBuffer = [],
     eventLocationCaptured = True, defenseActivationAttempted = False,
     earthquakeDetected = True, earthquakeIntensity = 0, lastEarthquakeTime = Some 23500,
     currentEventLocation = Some \<lparr> lat = 41, lng = 29 \<rparr>,
     emergencyDefenseActivated = False,
     earthquakeHistory = [], earthquake_events = [], defenseActivationCalls = 0,
     eventsStarted = [20000], suspended = [] \<rparr>"
  by (simp add: detector_defs)

text \<open>
  Claim C3 (an idle detector starts an event exactly when the intensity exceeds the
  threshold, the average over the 10-sample window exceeds 0.8 times the threshold and
  more than 10000 ms have elapsed since the last detection time, with threshold = 1.2
  times the sensitivity).  The test made when an update arrives is the one claimed
  (\<open>detectEarthquake_starts_iff\<close>), on the value that \<open>lastDetectionTime\<close> holds.  But
  that ref is written only after the handler that starts an event has come back from
  its two awaits.  In the first run the first event starts at 20 s and its handler
  waits for the location provider; the excursion ends at 21 s; a strong reading at
  23 s starts a second event, 3 s after the first detection, with \<open>lastDetectionTime\<close>
  still 0.  The other four runs show the test itself: the window average decides
  (\<open>[0, 4]\<close> starts an event, nine zeros and 1.3 do not, although 1.3 exceeds the
  threshold 1.2), and once the ref is written the cooldown is enforced (no start
  exactly 10000 ms after the last detection, a start 1 ms later).
\<close>

theorem second_event_starts_inside_cooldown:
  "runDetector initialDetector
     [sampleAt 20000 13.81 False,
      sampleAt 21000 9.81 False,
      sampleAt 23000 13.81 False] =
   \<lparr> detectionBuffer = [4, 0, 4], lastDetectionTime = 0, eventStartTime = 23000,
     isInEvent = True, Detector.peakAcceleration = 1381 / 100, eventIntensityBuffer = [4],
     eventLocationCaptured = False, defenseActivationAttempted = False,
     earthquakeDetected = False, earthquakeIntensity = 4, lastEarthquakeTime = None,
     currentEventLocation = None, emergencyDefenseActivated = False,
     earthquakeHistory = [], earthquake_events = [], defenseActivationCalls = 0,
     eventsStarted = [20000, 23000],
     suspended =
       [(GetCurrentLocation,
         \<lparr> closure = \<lparr> now = 20000, sensitivity = 1, location = None,
                       Surroundings.activateEmergencyDefense = False \<rparr>,
           accel = 1381 / 100, combined = 4, seenEventLocation = None \<rparr>),
        (GetCurrentLocation,
         \<lparr> closure = \<lparr> now = 23000, sensitivity = 1, location = None,
                       Surroundings.activateEmergencyDefense = False \<rparr>,
           accel = 1381 / 100, combined = 4, seenEventLocation = None \<rparr>)] \<rparr> \<and>
   eventsStarted (runDetector initialDetector
     [sampleAt 1000 9.81 False, sampleAt 20000 13.81 False]) = [20000] \<and>
   eventsStarted (runDetector initialDetector
     [sampleAt 11000 9.81 False, sampleAt 12000 9.81 False, sampleAt 13000 9.81 False,
      sampleAt 14000 9.81 False, sampleAt 15000 9.81 False, sampleAt 16000 9.81 False,
      sampleAt 17000 9.81 False, sampleAt 18000 9.81 False, sampleAt 19000 9.81 False,
      sampleAt 20000 11.11 False]) = [] \<and>
   eventsStarted (runDetector initialDetector
     [sampleAt 20000 13.81 False,
      Resumption 0 (LocationAnswer (Returns None)) 20010,
      sampleAt 20500 9.81 False,
      sampleAt 30000 13.81 False]) = [20000] \<and>
   eventsStarted (runDetector initialDetector
     [sampleAt 20000 13.81 False,
      Resumption 0 (LocationAnswer (Returns None)) 20010,
      sampleAt 20500 9.81 False,
      sampleAt 30001 13.81 False]) = [20000, 30001]"
  by (simp add: detector_defs)

text \<open>
  Claim C9 (within one detected event the detector calls the defense callback at most
  once, however long the intensity stays above 2.5, and the flag reset at the end of
  the event lets a later, separate event call it again).  The flag
  \<open>defenseActivationAttempted\<close> is tested by the handler that starts an event only after
  that handler has come back from \<open>captureEarthquakeLocation\<close>.  In the run below one
  event starts at 20 s (intensity 4) and its handler waits for the location provider.
  The update at 21 s calls the callback (first call); the update at 22.5 s ends the
  event, and the reset clears the flag.  The location provider answers at 23.5 s: the
  handler that started the event finds the flag cleared and calls the callback again
  (second call), with no second event started.  Afterwards the detector is idle with
  \<open>defenseActivationAttempted\<close> and \<open>emergencyDefenseActivated\<close> set.  The second
  statement gives the number of calls after each occurrence.
\<close>

theorem defense_callback_called_twice_for_one_event:
  "runDetector initialDetector
     [sampleAt 20000 13.81 True,
      sampleAt 21000 13.81 True,
      Resumption 1 (DefenseAnswer (Returns True)) 21100,
      sampleAt 22500 9.81 True,
      Resumption 1 (InsertAnswer (Returns True)) 22600,
      Resumption 0 (LocationAnswer (Returns None)) 23500,
      Resumption 0 (DefenseAnswer (Returns True)) 23600] =
   \<lparr> detectionBuffer = [4, 4, 0], lastDetectionTime = 20000, eventStartTime = 20000,
     isInEvent = False, Detector.peakAcceleration = 0, eventIntensityBuffer = [],
     eventLocationCaptured = False, defenseActivationAttempted = True,
     earthquakeDetected = True, earthquakeIntensity = 0, lastEarthquakeTime = Some 23600,
     currentEventLocation = None, emergencyDefenseActivated = True,
     earthquakeHistory =
       [\<lparr> EarthquakeEvent.timestamp = 20000, EarthquakeEvent.intensity = 8 / 3,
          EarthquakeEvent.duration = 5 / 2, EarthquakeEvent.peakAcceleration = 1381 / 100 \<rparr>],
     earthquake_events =
       [\<lparr> EarthquakeEventData.user_id = ''anonymous-user'',
          EarthquakeEventData.intensity = 8 / 3, EarthquakeEventData.duration = 5 / 2,
          peak_acceleration = 1381 / 100, EarthquakeEventData.latitude = None,
          EarthquakeEventData.longitude = None, EarthquakeEventData.timestamp = 10820000 \<rparr>],
     defenseActivationCalls = 2, eventsStarted = [20000], suspended = [] \<rparr> \<and>
   map (\<lambda>n. defenseActivationCalls (runDetector initialDetector (take n
     [sampleAt 20000 13.81 True,
      sampleAt 21000 13.81 True,
      Resumption 1 (DefenseAnswer (Returns True)) 21100,
      sampleAt 22500 9.81 True,
      Resumption 1 (InsertAnswer (Returns True)) 22600,
      Resumption 0 (LocationAnswer (Returns None)) 23500,
      Resumption 0 (DefenseAnswer (Returns True)) 23600])))
     [0, 1, 2, 3, 4, 5, 6, 7] = [0, 0, 1, 1, 1, 1, 2, 2]"
  by (simp add: detector_defs)

section \<open>Intensity Calculator: theorems\<close>

lemma overflowThreshold_big: "16 * 2 ^ 1004 < overflowThreshold" "0 < overflowThreshold"
  by (simp_all add: overflowThreshold_def)

lemma rounded_in_range: "\<bar>r\<bar> < overflowThreshold \<Longrightarrow> rounded r = Finite r"
  by (auto simp: rounded_def)

lemma nonNegative_rounded: "0 \<le> r \<Longrightarrow> nonNegative (rounded r)"
  using overflowThreshold_big(2) by (simp add: rounded_def)

lemma nonNegative_square: "nonNegative (times_number (Finite a) (Finite a))"
  by (simp add: nonNegative_rounded)

lemma nonNegative_plus: "nonNegative p \<Longrightarrow> nonNegative q \<Longrightarrow> nonNegative (plus_number p q)"
  by (cases p; cases q) (simp_all add: nonNegative_rounded)

lemma nonNegative_sqrt: "nonNegative p \<Longrightarrow> nonNegative (Math_sqrt p)"
  by (cases p) simp_all

lemma nonNegative_magnitude:
  "nonNegative (calculateMagnitude_number (Finite a) (Finite b) (Finite c))"
  unfolding calculateMagnitude_number_def
  by (intro nonNegative_sqrt nonNegative_plus nonNegative_square)

lemma nonNegative_deviation: "nonNegative p \<Longrightarrow> nonNegative (Math_abs (minus_number p (Finite c)))"
  using overflowThreshold_big(2) by (cases p) (simp_all add: minus_number_def rounded_def)

lemma nonNegative_times15: "nonNegative p \<Longrightarrow> nonNegative (times_number p (Finite 15))"
  by (cases p) (simp_all add: nonNegative_rounded)

lemma nonNegative_combinedIntensity:
  "nonNegative p \<Longrightarrow> nonNegative q \<Longrightarrow> nonNegative (combinedIntensity_number p q)"
  unfolding combinedIntensity_number_def Let_def
  by (intro nonNegative_plus nonNegative_deviation nonNegative_times15)


lemma square_bound: "\<bar>a\<bar> \<le> 2 ^ 500 \<Longrightarrow> 0 \<le> a * a \<and> a * a \<le> (2 ^ 1000 :: real)"
proof -
  assume "\<bar>a\<bar> \<le> 2 ^ 500"
  then have "\<bar>a\<bar> * \<bar>a\<bar> \<le> 2 ^ 500 * (2 ^ 500 :: real)"
    by (intro mult_mono) simp_all
  moreover have "\<bar>a\<bar> * \<bar>a\<bar> = a * a" by simp
  moreover have "(2 ^ 500 * 2 ^ 500 :: real) = 2 ^ 1000" by (simp flip: power_add)
  ultimately show ?thesis by simp
qed

lemma magnitude_in_range:
  assumes "\<bar>a\<bar> \<le> 2 ^ 500" "\<bar>b\<bar> \<le> 2 ^ 500" "\<bar>c\<bar> \<le> 2 ^ 500"
  shows "calculateMagnitude_number (Finite a) (Finite b) (Finite c) =
           Finite (sqrt (a * a + b * b + c * c))"
    and "sqrt (a * a + b * b + c * c) \<le> 2 ^ 502"
proof -
  note sq = square_bound [OF assms(1)] square_bound [OF assms(2)] square_bound [OF assms(3)]
  have big: "(4 * 2 ^ 1000 :: real) < overflowThreshold"
    using overflowThreshold_big(1) by simp
  from sq big have "rounded (a * a) = Finite (a * a)" "rounded (b * b) = Finite (b * b)"
    "rounded (c * c) = Finite (c * c)" "rounded (a * a + b * b) = Finite (a * a + b * b)"
    "rounded (a * a + b * b + c * c) = Finite (a * a + b * b + c * c)"
    by (simp_all add: rounded_in_range)
  moreover have "\<not> a * a + b * b + c * c < 0"
    unfolding not_less by (intro add_nonneg_nonneg) simp_all
  ultimately show "calculateMagnitude_number (Finite a) (Finite b) (Finite c) =
           Finite (sqrt (a * a + b * b + c * c))"
    by (simp add: calculateMagnitude_number_def)
  have "a * a + b * b + c * c \<le> (2 ^ 502)\<^sup>2"
  proof -
    have "((2 ^ 502)\<^sup>2 :: real) = 16 * 2 ^ 1000" by (simp flip: power_mult)
    with sq show ?thesis by simp
  qed
  then show "sqrt (a * a + b * b + c * c) \<le> 2 ^ 502"
    by (intro real_le_lsqrt) simp_all
qed

lemma combinedIntensity_in_range:
  assumes "0 \<le> m" "m \<le> 2 ^ 502" "0 \<le> g" "g \<le> 2 ^ 502"
  shows "combinedIntensity_number (Finite m) (Finite g) = Finite (combinedIntensity m g)"
proof -
  have big: "(16 * 2 ^ 502 + 10 :: real) < overflowThreshold"
  proof -
    have "(16 * 2 ^ 502 + 10 :: real) \<le> 16 * 2 ^ 1004" by simp
    with overflowThreshold_big(1) show ?thesis by linarith
  qed
  from assms big have "\<bar>m - 9.81\<bar> < overflowThreshold" "\<bar>g * 15\<bar> < overflowThreshold"
    "\<bar>\<bar>m - 9.81\<bar> + g * 15\<bar> < overflowThreshold"
    by (simp_all add: abs_if)
  then show ?thesis
    by (simp add: combinedIntensity_number_def combinedIntensity_def minus_number_def
        rounded_in_range)
qed


lemma combinedIntensity_formula:
  "combinedIntensity (calculateMagnitude \<lparr> x = ax, y = ay, z = az \<rparr>)
                     (calculateMagnitude \<lparr> x = gx, y = gy, z = gz \<rparr>) =
     \<bar>sqrt (ax * ax + ay * ay + az * az) - 9.81\<bar> + 15 * sqrt (gx * gx + gy * gy + gz * gz)"
  by (simp add: combinedIntensity_def calculateMagnitude_def)

text \<open>
  Claim C2, as amended.  The combined intensity of an accelerometer sample and a
  gyroscope sample is \<open>|sqrt(ax\<^sup>2+ay\<^sup>2+az\<^sup>2) - 9.81| + 15 * sqrt(gx\<^sup>2+gy\<^sup>2+gz\<^sup>2)\<close>.  For
  every pair of finite samples the result is neither negative nor NaN, and it is a
  finite number, equal to that formula, whenever every component has a magnitude of at
  most \<open>2^500\<close>.  (Being a function of the two samples alone, equal inputs give equal
  outputs.)
\<close>

theorem combined_intensity_nonnegative:
  "nonNegative (combinedIntensity_number
      (calculateMagnitude_number (Finite ax) (Finite ay) (Finite az))
      (calculateMagnitude_number (Finite gx) (Finite gy) (Finite gz))) \<and>
   ((\<forall>c \<in> {ax, ay, az, gx, gy, gz}. \<bar>c\<bar> \<le> 2 ^ 500) \<longrightarrow>
      combinedIntensity_number
        (calculateMagnitude_number (Finite ax) (Finite ay) (Finite az))
        (calculateMagnitude_number (Finite gx) (Finite gy) (Finite gz)) =
      Finite (\<bar>sqrt (ax * ax + ay * ay + az * az) - 9.81\<bar> +
              15 * sqrt (gx * gx + gy * gy + gz * gz))) \<and>
   combinedIntensity (calculateMagnitude \<lparr> x = ax, y = ay, z = az \<rparr>)
                     (calculateMagnitude \<lparr> x = gx, y = gy, z = gz \<rparr>) =
     \<bar>sqrt (ax * ax + ay * ay + az * az) - 9.81\<bar> + 15 * sqrt (gx * gx + gy * gy + gz * gz) \<and>
   0 \<le> combinedIntensity (calculateMagnitude \<lparr> x = ax, y = ay, z = az \<rparr>)
                          (calculateMagnitude \<lparr> x = gx, y = gy, z = gz \<rparr>)"
proof (intro conjI impI)
  show "nonNegative (combinedIntensity_number
      (calculateMagnitude_number (Finite ax) (Finite ay) (Finite az))
      (calculateMagnitude_number (Finite gx) (Finite gy) (Finite gz)))"
    by (intro nonNegative_combinedIntensity nonNegative_magnitude)
next
  assume "\<forall>c \<in> {ax, ay, az, gx, gy, gz}. \<bar>c\<bar> \<le> 2 ^ 500"
  then have b: "\<bar>ax\<bar> \<le> 2 ^ 500" "\<bar>ay\<bar> \<le> 2 ^ 500" "\<bar>az\<bar> \<le> 2 ^ 500"
    "\<bar>gx\<bar> \<le> 2 ^ 500" "\<bar>gy\<bar> \<le> 2 ^ 500" "\<bar>gz\<bar> \<le> 2 ^ 500"
    by simp_all
  note am = magnitude_in_range [OF b(1,2,3)] and gm = magnitude_in_range [OF b(4,5,6)]
  have "combinedIntensity_number
        (Finite (sqrt (ax * ax + ay * ay + az * az))) (Finite (sqrt (gx * gx + gy * gy + gz * gz))) =
      Finite (combinedIntensity (sqrt (ax * ax + ay * ay + az * az))
                                (sqrt (gx * gx + gy * gy + gz * gz)))"
    using am(2) gm(2) by (intro combinedIntensity_in_range) simp_all
  then show "combinedIntensity_number
        (calculateMagnitude_number (Finite ax) (Finite ay) (Finite az))
        (calculateMagnitude_number (Finite gx) (Finite gy) (Finite gz)) =
      Finite (\<bar>sqrt (ax * ax + ay * ay + az * az) - 9.81\<bar> +
              15 * sqrt (gx * gx + gy * gy + gz * gz))"
    by (simp add: am(1) gm(1) combinedIntensity_def)
next
  show "combinedIntensity (calculateMagnitude \<lparr> x = ax, y = ay, z = az \<rparr>)
                     (calculateMagnitude \<lparr> x = gx, y = gy, z = gz \<rparr>) =
     \<bar>sqrt (ax * ax + ay * ay + az * az) - 9.81\<bar> + 15 * sqrt (gx * gx + gy * gy + gz * gz)"
    by (rule combinedIntensity_formula)
next
  have "0 \<le> sqrt (gx * gx + gy * gy + gz * gz)"
    by (intro real_sqrt_ge_zero add_nonneg_nonneg) simp_all
  then show "0 \<le> combinedIntensity (calculateMagnitude \<lparr> x = ax, y = ay, z = az \<rparr>)
                          (calculateMagnitude \<lparr> x = gx, y = gy, z = gz \<rparr>)"
    unfolding combinedIntensity_formula by simp
qed

theorem combined_intensity_nonnegative_witness:
  "\<bar>0 :: real\<bar> \<le> 2 ^ 500 \<and>
   combinedIntensity_number
     (calculateMagnitude_number (Finite 0) (Finite 0) (Finite 0))
     (calculateMagnitude_number (Finite 0) (Finite 0) (Finite 0)) = Finite 9.81"
  using combined_intensity_nonnegative [of 0 0 0 0 0 0] by simp

text \<open>
  Claim C2 as stated promises a finite result for every pair of finite samples.  The
  accelerometer sample \<open>(2^600, 0, 0)\<close> is finite, its square overflows, and the combined
  intensity is \<open>+Infinity\<close>.
\<close>

theorem combined_intensity_overflow:
  "\<not> (\<exists>r. combinedIntensity_number
      (calculateMagnitude_number (Finite (2 ^ 600)) (Finite 0) (Finite 0))
      (calculateMagnitude_number (Finite 0) (Finite 0) (Finite 0)) = Finite r)"
proof -
  have "rounded (2 ^ 600 * 2 ^ 600) = PosInfinity"
    by (simp add: rounded_def overflowThreshold_def)
  moreover have "rounded 0 = Finite 0"
    using overflowThreshold_big(2) by (simp add: rounded_def)
  ultimately have "combinedIntensity_number
      (calculateMagnitude_number (Finite (2 ^ 600)) (Finite 0) (Finite 0))
      (calculateMagnitude_number (Finite 0) (Finite 0) (Finite 0)) = PosInfinity"
    by (simp add: combinedIntensity_number_def calculateMagnitude_number_def minus_number_def)
  then show ?thesis by simp
qed
section \<open>Defense Mode Controller: theorems\<close>

lemma defenseState_simps:
  "defenseState (setDefenseState update h) = update (defenseState h)"
  "falseAlarmCheckInterval (setDefenseState update h) = falseAlarmCheckInterval h"
  "screenBrightness (setDefenseState update h) = screenBrightness h"
  "alerts (setDefenseState update h) = alerts h"
  "defenseState (Alert_alert a h) = defenseState h"
  "falseAlarmCheckInterval (Alert_alert a h) = falseAlarmCheckInterval h"
  "screenBrightness (Alert_alert a h) = screenBrightness h"
  "alerts (Alert_alert a h) = alerts h @ [a]"
  "defenseState (clearBodyStyle h) = defenseState h"
  "falseAlarmCheckInterval (clearBodyStyle h) = falseAlarmCheckInterval h"
  "screenBrightness (clearBodyStyle h) = screenBrightness h"
  "alerts (clearBodyStyle h) = alerts h"
  by (simp_all add: setDefenseState_def Alert_alert_def clearBodyStyle_def)

lemma initializeBrightnessState_frame:
  "falseAlarmCheckInterval (initializeBrightnessState captured d h) = falseAlarmCheckInterval h"
  "alerts (initializeBrightnessState captured d h) = alerts h"
  "isActive (defenseState (initializeBrightnessState captured d h)) = isActive (defenseState h)"
  "falseAlarmDisabled (defenseState (initializeBrightnessState captured d h)) =
     falseAlarmDisabled (defenseState h)"
  "falseAlarmDisabledUntil (defenseState (initializeBrightnessState captured d h)) =
     falseAlarmDisabledUntil (defenseState h)"
  by (simp_all add: initializeBrightnessState_def Let_def defenseState_simps split: platform.splits)

lemma deactivateEmergencyDefense_result:
  "fst (deactivateEmergencyDefense captured d h) = True"
  "isActive (defenseState (snd (deactivateEmergencyDefense captured d h))) = False"
  "originalBrightness (defenseState (snd (deactivateEmergencyDefense captured d h))) = None"
  "batterySavingEnabled (defenseState (snd (deactivateEmergencyDefense captured d h))) = False"
  "locationSent (defenseState (snd (deactivateEmergencyDefense captured d h))) = False"
  "brightnessRestored (defenseState (snd (deactivateEmergencyDefense captured d h))) = False"
  "falseAlarmDisabled (defenseState (snd (deactivateEmergencyDefense captured d h))) =
     falseAlarmDisabled (defenseState h)"
  "falseAlarmDisabledUntil (defenseState (snd (deactivateEmergencyDefense captured d h))) =
     falseAlarmDisabledUntil (defenseState h)"
  "isInitialized (defenseState (snd (deactivateEmergencyDefense captured d h))) =
     isInitialized (defenseState h)"
  "falseAlarmCheckInterval (snd (deactivateEmergencyDefense captured d h)) = falseAlarmCheckInterval h"
  "alerts (snd (deactivateEmergencyDefense captured d h)) = alerts h @ [DefenseDeactivatedAlert]"
  by (simp_all add: deactivateEmergencyDefense_def Let_def defenseState_simps split: platform.splits)

lemma deactivateEmergencyDefense_brightness:
  "OS d = Native \<Longrightarrow>
   screenBrightness (snd (deactivateEmergencyDefense captured d h)) =
     (if setBrightnessThrows d then screenBrightness h
      else case originalBrightness captured of
             None \<Rightarrow> 0.8
           | Some b \<Rightarrow> if b = 0 then 0.8 else b)"
  by (simp add: deactivateEmergencyDefense_def Let_def defenseState_simps)

lemma disableForFalseAlarm_locks:
  assumes "falseAlarmDisabledUntil (defenseState h) = None"
  shows "lockedUntil (newDate d + 1800000) (snd (disableForFalseAlarm (defenseState h) d h))"
    and "fst (disableForFalseAlarm (defenseState h) d h) = True"
  using assms
  by (simp_all add: disableForFalseAlarm_def Let_def lockedUntil_def defenseState_simps
      deactivateEmergencyDefense_result)

lemma disableForFalseAlarm_deactivates_first:
  assumes "isActive captured" and "OS d = Native" and "\<not> setBrightnessThrows d"
  shows "screenBrightness (snd (disableForFalseAlarm captured d h)) =
           (case originalBrightness captured of None \<Rightarrow> 0.8 | Some b \<Rightarrow> if b = 0 then 0.8 else b)"
    and "alerts (snd (disableForFalseAlarm captured d h)) =
           alerts h @ [DefenseDeactivatedAlert, FalseAlarmProtectionAlert]"
  using assms
  by (simp_all add: disableForFalseAlarm_def Let_def defenseState_simps
      deactivateEmergencyDefense_result deactivateEmergencyDefense_brightness)

lemma activateEmergencyDefense_rejected:
  assumes "lockedUntil until h"
  shows "fst (activateEmergencyDefense (defenseState h) d h) = False"
    and "lockedUntil until (snd (activateEmergencyDefense (defenseState h) d h))"
    and "alerts (snd (activateEmergencyDefense (defenseState h) d h)) =
           alerts h @ [DefenseDisabledAlert \<lceil>real_of_int (until - newDate d) / 60000\<rceil>]"
  using assms
  by (simp_all add: activateEmergencyDefense_def Let_def lockedUntil_def defenseState_simps
      initializeBrightnessState_frame)

lemma intervalFires_stale:
  assumes "lockedUntil until h"
  shows "intervalFires d h = h"
  using assms by (simp add: intervalFires_def lockedUntil_def checkFalseAlarmStatus_def)

lemma perform_keeps_lock:
  assumes "lockedUntil until h" and "a \<noteq> FalseAlarm"
  shows "lockedUntil until (perform h (a, d))"
proof (cases a)
  case Activate
  with assms(1) show ?thesis by (simp add: activateEmergencyDefense_rejected)
next
  case Deactivate
  with assms(1) show ?thesis
    by (simp add: lockedUntil_def deactivateEmergencyDefense_result)
next
  case FalseAlarm
  with assms(2) show ?thesis by simp
next
  case Minute
  with assms(1) show ?thesis by (simp add: intervalFires_stale)
qed

lemma foldl_perform_keeps_lock:
  assumes "lockedUntil until h" and "\<forall>step \<in> set steps. fst step \<noteq> FalseAlarm"
  shows "lockedUntil until (foldl perform h steps)"
  using assms
proof (induction steps arbitrary: h)
  case Nil
  then show ?case by simp
next
  case (Cons step steps)
  obtain a d where step: "step = (a, d)" by (cases step)
  with Cons.prems have "lockedUntil until (perform h step)"
    by (simp add: perform_keeps_lock)
  with Cons show ?case by simp
qed

lemma checkFalseAlarmStatus_of_current_render_unlocks:
  assumes "falseAlarmDisabledUntil (defenseState h) = Some until" and "until \<le> newDate d"
  shows "\<not> falseAlarmDisabled
           (defenseState (checkFalseAlarmStatus (falseAlarmDisabledUntil (defenseState h)) d h))"
  using assms by (simp add: checkFalseAlarmStatus_def defenseState_simps)

text \<open>
  Claim C10.  Deactivating defense mode returns \<open>true\<close> and resets the defense state
  (\<open>isActive\<close>, \<open>batterySavingEnabled\<close>, \<open>locationSent\<close> and \<open>brightnessRestored\<close> false,
  \<open>originalBrightness\<close> cleared) whatever the collaborators do; in particular when the
  brightness write throws, in which case the screen brightness is left as it was.
\<close>

theorem deactivation_resets_state_and_returns_true:
  "fst (deactivateEmergencyDefense captured d h) = True \<and>
   isActive (defenseState (snd (deactivateEmergencyDefense captured d h))) = False \<and>
   batterySavingEnabled (defenseState (snd (deactivateEmergencyDefense captured d h))) = False \<and>
   locationSent (defenseState (snd (deactivateEmergencyDefense captured d h))) = False \<and>
   brightnessRestored (defenseState (snd (deactivateEmergencyDefense captured d h))) = False \<and>
   originalBrightness (defenseState (snd (deactivateEmergencyDefense captured d h))) = None \<and>
   (OS d = Native \<and> setBrightnessThrows d \<longrightarrow>
      screenBrightness (snd (deactivateEmergencyDefense captured d h)) = screenBrightness h)"
  by (simp add: deactivateEmergencyDefense_result deactivateEmergencyDefense_brightness)

theorem deactivation_resets_state_and_returns_true_witness:
  "(let stuck = phoneAt 0 \<lparr> setBrightnessThrows := True \<rparr>;
        active = initialHook \<lparr> screenBrightness := 0.1,
                   defenseState := initialDefenseState \<lparr> isActive := True,
                     originalBrightness := Some 0.7, batterySavingEnabled := True \<rparr> \<rparr>
    in OS stuck = Native \<and> setBrightnessThrows stuck \<and>
       fst (deactivateEmergencyDefense (defenseState active) stuck active) \<and>
       \<not> isActive (defenseState (snd (deactivateEmergencyDefense (defenseState active) stuck active))) \<and>
       screenBrightness (snd (deactivateEmergencyDefense (defenseState active) stuck active)) = 0.1)"
  using deactivation_resets_state_and_returns_true
    [of "defenseState (initialHook \<lparr> screenBrightness := 0.1,
                   defenseState := initialDefenseState \<lparr> isActive := True,
                     originalBrightness := Some 0.7, batterySavingEnabled := True \<rparr> \<rparr>)"
        "phoneAt 0 \<lparr> setBrightnessThrows := True \<rparr>"
        "initialHook \<lparr> screenBrightness := 0.1,
                   defenseState := initialDefenseState \<lparr> isActive := True,
                     originalBrightness := Some 0.7, batterySavingEnabled := True \<rparr> \<rparr>"]
  by (simp add: Let_def phoneAt_def initialHook_def)

text \<open>
  Claim C8 says that the false-alarm lock clears once 30 minutes have passed and that
  activation succeeds again.  The code does not do that.  When the false-alarm button
  is pressed in a render without a lock, defense mode is deactivated first and the
  lock is set for 30 minutes, as claimed, and every activation attempt under the lock
  is refused with the remaining minutes.  But the interval polls with the
  \<open>checkFalseAlarmStatus\<close> of the render in which the button was pressed, whose
  \<open>defenseState.falseAlarmDisabledUntil\<close> is \<open>null\<close>; it never sees the expiry time.
  Whatever happens next (interval firings at any times, activation attempts,
  deactivations; the false-alarm button itself is disabled while the lock is on), the
  lock stays in force and activation is refused, also long after the 30 minutes, with
  a remaining time that has become negative.  (Called from the current render,
  \<open>checkFalseAlarmStatus\<close> would lift an expired lock: see
  \<open>checkFalseAlarmStatus_of_current_render_unlocks\<close>.)
\<close>

theorem false_alarm_lock_outlives_thirty_minutes:
  assumes "falseAlarmDisabledUntil (defenseState h) = None"
      and "\<forall>step \<in> set steps. fst step \<noteq> FalseAlarm"
  shows "let later = foldl perform (perform h (FalseAlarm, d0)) steps
         in falseAlarmDisabled (defenseState later) \<and>
            falseAlarmDisabledUntil (defenseState later) = Some (newDate d0 + 30 * 60 * 1000) \<and>
            \<not> isActive (defenseState later) \<and>
            fst (activateEmergencyDefense (defenseState later) d later) = False \<and>
            \<not> isActive (defenseState (perform later (Activate, d))) \<and>
            last (alerts (perform later (Activate, d))) =
              DefenseDisabledAlert \<lceil>real_of_int (newDate d0 + 30 * 60 * 1000 - newDate d) / 60000\<rceil>"
proof -
  define later where "later = foldl perform (perform h (FalseAlarm, d0)) steps"
  have "lockedUntil (newDate d0 + 1800000) (perform h (FalseAlarm, d0))"
    using disableForFalseAlarm_locks(1) [OF assms(1)] by simp
  then have locked: "lockedUntil (newDate d0 + 1800000) later"
    unfolding later_def using assms(2) by (rule foldl_perform_keeps_lock)
  note rejected = activateEmergencyDefense_rejected [OF locked, of d]
  from locked rejected show ?thesis
    unfolding Let_def later_def [symmetric] by (simp add: lockedUntil_def)
qed

theorem false_alarm_lock_outlives_thirty_minutes_witness:
  "(let active = perform initialHook (Activate, phoneAt 0);
        locked = perform active (FalseAlarm, phoneAt 60000);
        later = foldl perform locked [(Minute, phoneAt 1860000), (Minute, phoneAt 1920000)]
    in isActive (defenseState active) \<and>
       screenBrightness active = 0.1 \<and>
       \<not> isActive (defenseState locked) \<and>
       screenBrightness locked = 0.8 \<and>
       falseAlarmDisabledUntil (defenseState locked) = Some 1860000 \<and>
       falseAlarmDisabled (defenseState later) \<and>
       fst (activateEmergencyDefense (defenseState later) (phoneAt 1920000) later) = False \<and>
       last (alerts (perform later (Activate, phoneAt 1920000))) = DefenseDisabledAlert (- 1))"
proof -
  define active where "active = perform initialHook (Activate, phoneAt 0)"
  have active: "isActive (defenseState active)" "screenBrightness active = 0.1"
    "originalBrightness (defenseState active) = Some 0.8"
    "falseAlarmDisabledUntil (defenseState active) = None"
    by (simp_all add: active_def activateEmergencyDefense_def initializeBrightnessState_def
        initialHook_def initialDefenseState_def phoneAt_def Let_def defenseState_simps)
  have steps: "\<forall>step \<in> set [(Minute, phoneAt 1860000), (Minute, phoneAt 1920000)]. fst step \<noteq> FalseAlarm"
    by simp
  have phone: "OS (phoneAt 60000) = Native" "\<not> setBrightnessThrows (phoneAt 60000)"
    "newDate (phoneAt 60000) = 60000" "newDate (phoneAt 1920000) = 1920000"
    by (simp_all add: phoneAt_def)
  note locked = disableForFalseAlarm_locks(1) [OF active(4), of "phoneAt 60000"]
    and restored = disableForFalseAlarm_deactivates_first(1) [OF active(1) phone(1,2), of active]
  have minutes: "\<lceil>- 1 :: real\<rceil> = - 1"
    using ceiling_of_int [of "- 1", where ?'a = real] by simp
  from false_alarm_lock_outlives_thirty_minutes [OF active(4) steps, of "phoneAt 60000" "phoneAt 1920000"]
    locked restored active
  show ?thesis
    unfolding Let_def active_def [symmetric]
    by (simp add: phone lockedUntil_def minutes)
qed

end
